theory Spec2Isabelle
  imports Main "HOL-Library.Word"
begin

section \<open>The Aptos watcher (node/pkg/aptos/watcher.go)\<close>

subsection \<open>Machine types and byte strings\<close>

type_synonym byte = "8 word"
type_synonym u16 = "16 word"
type_synonym u32 = "32 word"
type_synonym u64 = "64 word"

text \<open>
  \<^verbatim>\<open>binary.BigEndian.PutUint64\<close>: the eight bytes of a 64-bit value, most significant
  first.
\<close>

definition PutUint64 :: "u64 \<Rightarrow> byte list" where
  "PutUint64 v =
     [ucast (drop_bit 56 v), ucast (drop_bit 48 v), ucast (drop_bit 40 v),
      ucast (drop_bit 32 v), ucast (drop_bit 24 v), ucast (drop_bit 16 v),
      ucast (drop_bit 8 v), ucast v]"

text \<open>
  \<^verbatim>\<open>binary.BigEndian.Uint64\<close> reads the first eight bytes of a slice and panics
  (index out of range) on a shorter one; \<open>None\<close> is the panic.
\<close>

fun be_value :: "byte list \<Rightarrow> u64 \<Rightarrow> u64" where
  "be_value [] acc = acc"
| "be_value (b # bs) acc = be_value bs (push_bit 8 acc + ucast b)"

definition Uint64 :: "byte list \<Rightarrow> u64 option" where
  "Uint64 b = (if length b < 8 then None else Some (be_value (take 8 b) 0))"

subsection \<open>The JSON results of the gjson library\<close>

text \<open>
  The watcher reads every response through the third-party library gjson. A parsed value
  is modelled by its kind and content. Number literals are the non-negative integer
  literals (a fraction, an exponent or a sign is outside the model: gjson reads those
  through a float). An array or an object carries its raw text, which is what
  \<^verbatim>\<open>String()\<close> returns for it.
\<close>

datatype json =
    JNull
  | JFalse
  | JTrue
  | JNumber nat
  | JString string
  | JArray string "json list"
  | JObject string "(string \<times> json) list"

text \<open>\<^verbatim>\<open>Get(key)\<close> for a plain key: the first member of an object with that key.
  \<open>None\<close> is a result for which \<^verbatim>\<open>Exists()\<close> is false.\<close>

fun Get :: "json \<Rightarrow> string \<Rightarrow> json option" where
  "Get (JObject raw members) key = map_of members key"
| "Get _ key = None"

text \<open>\<^verbatim>\<open>Array()\<close>: the elements of an array, nothing for null, and the value itself as
  the only element otherwise.\<close>

fun Array :: "json \<Rightarrow> json list" where
  "Array (JArray raw elems) = elems"
| "Array JNull = []"
| "Array v = [v]"

definition digit_char :: "nat \<Rightarrow> char" where
  "digit_char d = char_of (48 + d)"

fun decimal :: "nat \<Rightarrow> string" where
  "decimal n = (if n < 10 then [digit_char n] else decimal (n div 10) @ [digit_char (n mod 10)])"

declare decimal.simps [simp del]

text \<open>\<^verbatim>\<open>String()\<close>.\<close>

fun String :: "json \<Rightarrow> string" where
  "String JNull = []"
| "String JFalse = ''false''"
| "String JTrue = ''true''"
| "String (JNumber n) = decimal n"
| "String (JString s) = s"
| "String (JArray raw elems) = raw"
| "String (JObject raw members) = raw"

text \<open>
  gjson's \<^verbatim>\<open>parseUint\<close>: an empty string or any character that is not a decimal
  digit fails; the value is accumulated in a 64-bit unsigned integer, so it wraps.
\<close>

definition is_digit :: "char \<Rightarrow> bool" where
  "is_digit c = (48 \<le> (of_char c :: nat) \<and> (of_char c :: nat) \<le> 57)"

fun parseUint_loop :: "string \<Rightarrow> u64 \<Rightarrow> u64 option" where
  "parseUint_loop [] n = Some n"
| "parseUint_loop (c # cs) n =
     (if is_digit c then parseUint_loop cs (n * 10 + of_nat ((of_char c :: nat) - 48)) else None)"

definition parseUint :: "string \<Rightarrow> u64 option" where
  "parseUint s = (if s = [] then None else parseUint_loop s 0)"

text \<open>\<^verbatim>\<open>Uint()\<close>: 1 for true, the parsed value (0 when parsing fails) for a string, the
  value for a number, 0 for anything else.\<close>

fun Uint :: "json \<Rightarrow> u64" where
  "Uint JTrue = 1"
| "Uint (JString s) = (case parseUint s of Some n \<Rightarrow> n | None \<Rightarrow> 0)"
| "Uint (JNumber n) = of_nat n"
| "Uint _ = 0"

subsection \<open>Hex decoding (encoding/hex)\<close>

definition fromHexChar :: "char \<Rightarrow> byte option" where
  "fromHexChar c =
     (let n = (of_char c :: nat) in
      if 48 \<le> n \<and> n \<le> 57 then Some (of_nat (n - 48))
      else if 97 \<le> n \<and> n \<le> 102 then Some (of_nat (n - 97 + 10))
      else if 65 \<le> n \<and> n \<le> 70 then Some (of_nat (n - 65 + 10))
      else None)"

text \<open>\<^verbatim>\<open>hex.DecodeString\<close>; \<open>None\<close> is a returned error (odd length or a character
  that is no hex digit).\<close>

fun DecodeString :: "string \<Rightarrow> byte list option" where
  "DecodeString [] = Some []"
| "DecodeString [c] = None"
| "DecodeString (a # b # rest) =
     (case fromHexChar a of
        None \<Rightarrow> None
      | Some hi \<Rightarrow>
          (case fromHexChar b of
             None \<Rightarrow> None
           | Some lo \<Rightarrow>
               (case DecodeString rest of
                  None \<Rightarrow> None
                | Some bs \<Rightarrow> Some ((push_bit 4 hi + lo) # bs))))"

subsection \<open>Messages and \<^verbatim>\<open>observeData\<close>\<close>

record MessagePublication =
  TxHash :: "byte list"
  Timestamp :: u64
  Nonce :: u32
  Sequence :: u64
  EmitterChain :: u16
  EmitterAddress :: "byte list"
  Payload :: "byte list"
  ConsistencyLevel :: byte

text \<open>
  What one call of \<^verbatim>\<open>observeData\<close> does: it returns after logging (the event is
  dropped, with the logged word), it sends one message on \<^verbatim>\<open>msgChan\<close>, or it panics.
\<close>

datatype observed = Dropped string | Observed MessagePublication | Panic string

text \<open>
  \<^verbatim>\<open>eth_common.BytesToHash\<close> and \<^verbatim>\<open>copy(a[24:], emitter)\<close> both put the eight
  bytes at the end of a 32-byte array of zeroes.
\<close>

definition pad32 :: "byte list \<Rightarrow> byte list" where
  "pad32 b = replicate 24 0 @ b"

text \<open>
  The chain identifier \<^verbatim>\<open>vaa.ChainIDAptos\<close> is declared outside this source; it is
  the parameter \<open>aptos\<close>. The timestamp is kept as the 64-bit number of seconds
  handed to \<^verbatim>\<open>time.Unix\<close>. The payload is sliced with \<^verbatim>\<open>[2:]\<close> before any check
  of its length, which panics on a string shorter than two bytes.
\<close>

definition observeData :: "u16 \<Rightarrow> json \<Rightarrow> u64 \<Rightarrow> observed" where
  "observeData aptos data native_seq =
     (case Get data ''sender'' of
        None \<Rightarrow> Dropped ''sender''
      | Some em \<Rightarrow>
          if String em \<noteq> ''0'' \<and> Uint em = 0 then Dropped ''Invalid emitter''
          else
            (case Get data ''payload'' of
               None \<Rightarrow> Dropped ''payload''
             | Some v \<Rightarrow>
                 if length (String v) < 2 then Panic ''slice bounds out of range''
                 else
                   (case DecodeString (drop 2 (String v)) of
                      None \<Rightarrow> Dropped ''payload decode''
                    | Some pl \<Rightarrow>
                        (case Get data ''timestamp'' of
                           None \<Rightarrow> Dropped ''timestamp''
                         | Some ts \<Rightarrow>
                             (case Get data ''nonce'' of
                                None \<Rightarrow> Dropped ''nonce''
                              | Some nonce \<Rightarrow>
                                  (case Get data ''sequence'' of
                                     None \<Rightarrow> Dropped ''sequence''
                                   | Some sequence \<Rightarrow>
                                       (case Get data ''consistency_level'' of
                                          None \<Rightarrow> Dropped ''consistency_level''
                                        | Some consistency_level \<Rightarrow>
                                            Observed
                                              \<lparr>TxHash = pad32 (PutUint64 native_seq),
                                               Timestamp = Uint ts,
                                               Nonce = ucast (Uint nonce),
                                               Sequence = Uint sequence,
                                               EmitterChain = aptos,
                                               EmitterAddress = pad32 (PutUint64 (Uint em)),
                                               Payload = pl,
                                               ConsistencyLevel =
                                                 ucast (Uint consistency_level)\<rparr>)))))))"

subsection \<open>The watcher and its loop\<close>

text \<open>
  The fields of the watcher that the loop changes, with what it writes to the outside:
  the messages sent on \<^verbatim>\<open>msgChan\<close> (oldest first), the sum of the
  \<^verbatim>\<open>AddErrorCount\<close> calls, and the height last given to \<^verbatim>\<open>SetNetworkStats\<close>
  together with the readiness flag. Logging and the Prometheus metrics are left out.
\<close>

record Watcher =
  next_sequence :: u64
  msgChan :: "MessagePublication list"
  errorCount :: nat
  height :: "u64 option"
  ready :: bool

text \<open>
  The URLs the loop builds: the event query with its optional \<^verbatim>\<open>start\<close> and
  \<^verbatim>\<open>limit\<close> parameters, and the health URL.
\<close>

datatype query = EventQuery "u64 option" "nat option" | HealthQuery

text \<open>
  What \<^verbatim>\<open>retrievePayload\<close> returns for a URL: an error, or a body. A body is
  described by what the loop asks of it: whether it is the empty string, whether
  \<^verbatim>\<open>gjson.Valid\<close> accepts it (an empty body is not valid), and its parse.
\<close>

datatype body = Empty | Invalid | Valid json

datatype response = TransportError | Body body

text \<open>
  One iteration of the loop ends in one of these ways: the loop goes on; an error was
  sent on \<^verbatim>\<open>errC\<close>, which makes \<^verbatim>\<open>Run\<close> return it; the goroutine panicked; the
  context was done. Each carries the watcher as the iteration left it.
\<close>

datatype outcome = Continue Watcher | Fatal Watcher | Panicked string Watcher | Done Watcher

record ObservationRequest =
  ChainId :: u32
  ReqTxHash :: "byte list"

text \<open>The loop over the chunks of a replay response. \<open>Inl\<close> is a panic, with the
  watcher as it was then.\<close>

fun replay_chunks ::
  "u16 \<Rightarrow> u64 \<Rightarrow> json list \<Rightarrow> Watcher \<Rightarrow> (string \<times> Watcher) + Watcher" where
  "replay_chunks aptos native_seq [] e = Inr e"
| "replay_chunks aptos native_seq (chunk # rest) e =
     (case Get chunk ''sequence_number'' of
        None \<Rightarrow> Inr e
      | Some newSeq \<Rightarrow>
          if Uint newSeq \<noteq> native_seq then Inr e
          else
            (case Get chunk ''data'' of
               None \<Rightarrow> Inr e
             | Some data \<Rightarrow>
                 (case observeData aptos data native_seq of
                    Dropped l \<Rightarrow> replay_chunks aptos native_seq rest e
                  | Observed m \<Rightarrow>
                      replay_chunks aptos native_seq rest (e\<lparr>msgChan := msgChan e @ [m]\<rparr>)
                  | Panic p \<Rightarrow> Inl (p, e))))"

text \<open>
  The case \<^verbatim>\<open>r := <-e.obsvReqC\<close>. The parameter \<open>rpc\<close> answers the URLs of this
  iteration. The handler returns how the iteration ends together with the URLs it has
  handed to \<^verbatim>\<open>retrievePayload\<close>, in order: here the one call on line 215.
\<close>

definition on_request ::
  "u16 \<Rightarrow> (query \<Rightarrow> response) \<Rightarrow> ObservationRequest \<Rightarrow> Watcher \<Rightarrow> outcome \<times> query list" where
  "on_request aptos rpc r e =
     (if (ucast (ChainId r) :: u16) \<noteq> aptos then (Panicked ''invalid chain ID'' e, [])
      else
        (case Uint64 (ReqTxHash r) of
           None \<Rightarrow> (Panicked ''index out of range'' e, [])
         | Some native_seq \<Rightarrow>
             (case rpc (EventQuery (Some native_seq) (Some 1)) of
                TransportError \<Rightarrow> Fatal (e\<lparr>errorCount := errorCount e + 1\<rparr>)
              | Body Empty \<Rightarrow> Continue (e\<lparr>errorCount := errorCount e + 1\<rparr>)
              | Body Invalid \<Rightarrow> Continue (e\<lparr>errorCount := errorCount e + 1\<rparr>)
              | Body (Valid outcomes) \<Rightarrow>
                  (case replay_chunks aptos native_seq (Array outcomes) e of
                     Inl (p, e') \<Rightarrow> Panicked p e'
                   | Inr e' \<Rightarrow> Continue e'),
              [EventQuery (Some native_seq) (Some 1)])))"

text \<open>The loop over the chunks of a poll response.\<close>

fun poll_chunks :: "u16 \<Rightarrow> json list \<Rightarrow> Watcher \<Rightarrow> (string \<times> Watcher) + Watcher" where
  "poll_chunks aptos [] e = Inr e"
| "poll_chunks aptos (chunk # rest) e =
     (case Get chunk ''sequence_number'' of
        None \<Rightarrow> poll_chunks aptos rest e
      | Some native_seq \<Rightarrow>
          if next_sequence e = 0 then Inr (e\<lparr>next_sequence := Uint native_seq + 1\<rparr>)
          else
            (let e1 = e\<lparr>next_sequence := Uint native_seq + 1\<rparr> in
             case Get chunk ''data'' of
               None \<Rightarrow> poll_chunks aptos rest e1
             | Some data \<Rightarrow>
                 (case observeData aptos data (Uint native_seq) of
                    Dropped l \<Rightarrow> poll_chunks aptos rest e1
                  | Observed m \<Rightarrow> poll_chunks aptos rest (e1\<lparr>msgChan := msgChan e1 @ [m]\<rparr>)
                  | Panic p \<Rightarrow> Inl (p, e1))))"

text \<open>The health query that ends a poll cycle (lines 300 to 329).\<close>

definition health_check :: "(query \<Rightarrow> response) \<Rightarrow> Watcher \<Rightarrow> outcome" where
  "health_check rpc e =
     (case rpc HealthQuery of
        TransportError \<Rightarrow> Fatal (e\<lparr>errorCount := errorCount e + 1\<rparr>)
      | Body Empty \<Rightarrow> Continue (e\<lparr>errorCount := errorCount e + 1\<rparr>)
      | Body Invalid \<Rightarrow> Continue (e\<lparr>errorCount := errorCount e + 1\<rparr>)
      | Body (Valid phealth) \<Rightarrow>
          (case Get phealth ''block_height'' of
             None \<Rightarrow> Continue e
           | Some block_height \<Rightarrow>
               Continue (e\<lparr>height := Some (Uint block_height), ready := True\<rparr>)))"

text \<open>
  The case \<^verbatim>\<open><-timer.C\<close>: the query is \<^verbatim>\<open>?limit=1\<close> while the cursor is 0 and
  \<^verbatim>\<open>?start=next_sequence\<close> afterwards. The URLs handed to \<^verbatim>\<open>retrievePayload\<close> are the
  event query (line 259) and, when the page was read to its end, the health URL (line
  300).
\<close>

definition poll_query :: "Watcher \<Rightarrow> query" where
  "poll_query e =
     (if next_sequence e = 0 then EventQuery None (Some 1)
      else EventQuery (Some (next_sequence e)) None)"

definition on_timer ::
  "u16 \<Rightarrow> (query \<Rightarrow> response) \<Rightarrow> Watcher \<Rightarrow> outcome \<times> query list" where
  "on_timer aptos rpc e =
     (case rpc (poll_query e) of
        TransportError \<Rightarrow> (Fatal (e\<lparr>errorCount := errorCount e + 1\<rparr>), [poll_query e])
      | Body Empty \<Rightarrow> (Continue e, [poll_query e])
      | Body Invalid \<Rightarrow> (Continue (e\<lparr>errorCount := errorCount e + 1\<rparr>), [poll_query e])
      | Body (Valid outcomes) \<Rightarrow>
          (case poll_chunks aptos (Array outcomes) e of
             Inl (p, e') \<Rightarrow> (Panicked p e', [poll_query e])
           | Inr e' \<Rightarrow> (health_check rpc e', [poll_query e, HealthQuery])))"

text \<open>What the \<^verbatim>\<open>select\<close> of the loop can receive, and one iteration of the loop: how
  it ends, and the URLs it has fetched.\<close>

datatype event = CtxDone | Request ObservationRequest | Timer

fun select_case ::
  "u16 \<Rightarrow> (query \<Rightarrow> response) \<Rightarrow> event \<Rightarrow> Watcher \<Rightarrow> outcome \<times> query list" where
  "select_case aptos rpc CtxDone e = (Done e, [])"
| "select_case aptos rpc (Request r) e = on_request aptos rpc r e"
| "select_case aptos rpc Timer e = on_timer aptos rpc e"

definition iteration :: "u16 \<Rightarrow> (query \<Rightarrow> response) \<Rightarrow> event \<Rightarrow> Watcher \<Rightarrow> outcome" where
  "iteration aptos rpc ev e = fst (select_case aptos rpc ev e)"

definition fetched :: "u16 \<Rightarrow> (query \<Rightarrow> response) \<Rightarrow> event \<Rightarrow> Watcher \<Rightarrow> query list" where
  "fetched aptos rpc ev e = snd (select_case aptos rpc ev e)"

subsection \<open>Vocabulary for the properties\<close>

text \<open>The watcher an iteration leaves behind, and the watcher a loop over chunks leaves
  behind, panic or not.\<close>

fun final :: "outcome \<Rightarrow> Watcher" where
  "final (Continue e) = e"
| "final (Fatal e) = e"
| "final (Panicked p e) = e"
| "final (Done e) = e"




text \<open>
  The sequence numbers a page lists, in the order of the page, and its valid events:
  the chunks that have a sequence number and data from which \<^verbatim>\<open>observeData\<close> makes a
  message, each with its sequence number and that message.
\<close>

definition chunk_seq :: "json \<Rightarrow> u64 option" where
  "chunk_seq chunk = map_option Uint (Get chunk ''sequence_number'')"

definition page_seqs :: "json list \<Rightarrow> u64 list" where
  "page_seqs page = List.map_filter chunk_seq page"

definition chunk_msg :: "u16 \<Rightarrow> json \<Rightarrow> (u64 \<times> MessagePublication) option" where
  "chunk_msg aptos chunk =
     (case Get chunk ''sequence_number'' of
        None \<Rightarrow> None
      | Some sn \<Rightarrow>
          (case Get chunk ''data'' of
             None \<Rightarrow> None
           | Some d \<Rightarrow>
               (case observeData aptos d (Uint sn) of
                  Observed m \<Rightarrow> Some (Uint sn, m)
                | _ \<Rightarrow> None)))"

definition page_msgs :: "u16 \<Rightarrow> json list \<Rightarrow> (u64 \<times> MessagePublication) list" where
  "page_msgs aptos page = List.map_filter (chunk_msg aptos) page"

definition sent_for :: "u16 \<Rightarrow> json \<Rightarrow> (u64 \<times> MessagePublication) list" where
  "sent_for aptos chunk = (case chunk_msg aptos chunk of None \<Rightarrow> [] | Some p \<Rightarrow> [p])"

text \<open>
  The number a string of decimal digits denotes, read from the left; the numeric
  strings, that is the non-empty strings of decimal digits; the number a list of bytes
  denotes when it is read big-endian.
\<close>

fun decimal_acc :: "string \<Rightarrow> nat \<Rightarrow> nat" where
  "decimal_acc [] n = n"
| "decimal_acc (c # cs) n = decimal_acc cs (n * 10 + ((of_char c :: nat) - 48))"

definition decimal_value :: "string \<Rightarrow> nat" where
  "decimal_value s = decimal_acc s 0"

definition numeric :: "string \<Rightarrow> bool" where
  "numeric s = (s \<noteq> [] \<and> (\<forall>c\<in>set s. is_digit c))"

definition be_nat :: "byte list \<Rightarrow> nat" where
  "be_nat bs = foldl (\<lambda>a b. a * 256 + unat b) 0 bs"

subsection \<open>Concrete inputs\<close>

text \<open>A watcher whose cursor is 5, a node that cannot be reached, and a request for
  chain 1.\<close>

definition w5 :: Watcher where
  "w5 = \<lparr>next_sequence = 5, msgChan = [], errorCount = 0, height = None, ready = False\<rparr>"

definition rpc_down :: "query \<Rightarrow> response" where
  "rpc_down q = TransportError"

definition req_solana :: ObservationRequest where
  "req_solana = \<lparr>ChainId = 1, ReqTxHash = [0, 0, 0, 0, 0, 0, 0, 5]\<rparr>"

text \<open>
  An event record as the node lists it: the six fields of the bridge's event, of which
  the sender, the payload and the sequence are given, and a chunk of a page with its
  sequence number. The raw text of the objects is abridged.
\<close>

definition event_data :: "string \<Rightarrow> string \<Rightarrow> string \<Rightarrow> json" where
  "event_data sender payload sequence =
     JObject ''{..}''
       [(''sender'', JString sender), (''payload'', JString payload),
        (''timestamp'', JString ''7''), (''nonce'', JString ''1''),
        (''sequence'', JString sequence), (''consistency_level'', JNumber 0)]"

definition event_chunk :: "string \<Rightarrow> json \<Rightarrow> json" where
  "event_chunk sequence_number data =
     JObject ''{..}'' [(''sequence_number'', JString sequence_number), (''data'', data)]"

definition page_empty :: json where
  "page_empty = JArray ''[]'' []"

text \<open>Nodes whose event endpoint answers an empty page and whose health endpoint
  fails, with a transport error and with a body that is not JSON.\<close>

fun rpc_health_down :: "query \<Rightarrow> response" where
  "rpc_health_down HealthQuery = TransportError"
| "rpc_health_down (EventQuery start limit) = Body (Valid page_empty)"

fun rpc_health_garbled :: "query \<Rightarrow> response" where
  "rpc_health_garbled HealthQuery = Body Invalid"
| "rpc_health_garbled (EventQuery start limit) = Body (Valid page_empty)"

text \<open>A node that lists one event whose payload is the empty string.\<close>

definition data_no_payload :: json where
  "data_no_payload = event_data ''1'' [] ''9''"

fun rpc_short_payload :: "query \<Rightarrow> response" where
  "rpc_short_payload HealthQuery =
     Body (Valid (JObject ''{..}'' [(''block_height'', JString ''100'')]))"
| "rpc_short_payload (EventQuery start limit) =
     Body (Valid (JArray ''[..]'' [event_chunk ''5'' data_no_payload]))"

text \<open>Events sent by the emitters \<open>0\<close>, \<open>123\<close> and \<open>abc\<close>, and the messages
  of the first two when they are observed at the source sequence 5.\<close>

definition data_zero :: json where
  "data_zero = event_data ''0'' ''0x01ff'' ''9''"

definition data_123 :: json where
  "data_123 = event_data ''123'' ''0x01ff'' ''9''"

definition data_abc :: json where
  "data_abc = event_data ''abc'' ''0x01ff'' ''9''"

definition msg_zero :: MessagePublication where
  "msg_zero =
     \<lparr>TxHash = replicate 24 0 @ [0, 0, 0, 0, 0, 0, 0, 5], Timestamp = 7, Nonce = 1, Sequence = 9,
      EmitterChain = 22, EmitterAddress = replicate 32 0, Payload = [1, 255],
      ConsistencyLevel = 0\<rparr>"

definition msg_123 :: MessagePublication where
  "msg_123 =
     \<lparr>TxHash = replicate 24 0 @ [0, 0, 0, 0, 0, 0, 0, 5], Timestamp = 7, Nonce = 1, Sequence = 9,
      EmitterChain = 22, EmitterAddress = replicate 24 0 @ [0, 0, 0, 0, 0, 0, 0, 123], Payload = [1, 255],
      ConsistencyLevel = 0\<rparr>"

text \<open>
  The message of an event observed at the source sequence \<open>n\<close>, sent by the emitter
  \<open>em\<close> with the sequence \<open>sq\<close>; an event of the emitter \<open>0\<close> with the sequence 2;
  a health response.
\<close>

definition msg_at :: "byte \<Rightarrow> byte \<Rightarrow> u64 \<Rightarrow> MessagePublication" where
  "msg_at n em sq =
     \<lparr>TxHash = replicate 24 0 @ [0, 0, 0, 0, 0, 0, 0, n], Timestamp = 7, Nonce = 1,
      Sequence = sq, EmitterChain = 22,
      EmitterAddress = replicate 24 0 @ [0, 0, 0, 0, 0, 0, 0, em], Payload = [1, 255],
      ConsistencyLevel = 0\<rparr>"

definition data_seq2 :: json where
  "data_seq2 = event_data ''0'' ''0x01ff'' ''2''"

definition health_ok :: json where
  "health_ok = JObject ''{..}'' [(''block_height'', JString ''100'')]"

text \<open>
  A page in ascending order, as the node answers \<^verbatim>\<open>?start=5\<close>: the event 5 of the
  emitter 123, whose sequence is 9, and the event 6 of the emitter 0, whose sequence is 2.
  A page that lists the event 7 and then the event 3.
\<close>

definition page_two_emitters :: json where
  "page_two_emitters = JArray ''[..]'' [event_chunk ''5'' data_123, event_chunk ''6'' data_seq2]"

definition page_unordered :: json where
  "page_unordered = JArray ''[..]'' [event_chunk ''7'' data_123, event_chunk ''3'' data_seq2]"

fun rpc_two_emitters :: "query \<Rightarrow> response" where
  "rpc_two_emitters HealthQuery = Body (Valid health_ok)"
| "rpc_two_emitters (EventQuery start limit) = Body (Valid page_two_emitters)"

fun rpc_unordered :: "query \<Rightarrow> response" where
  "rpc_unordered HealthQuery = Body (Valid health_ok)"
| "rpc_unordered (EventQuery start limit) = Body (Valid page_unordered)"


fun rpc_replay :: "query \<Rightarrow> response" where
  "rpc_replay HealthQuery = Body (Valid health_ok)"
| "rpc_replay (EventQuery start limit) =
     Body (Valid (JArray ''[..]'' [event_chunk ''5'' data_123]))"


text \<open>A replay request for the source sequence 5 whose chain identifier is 65558, that
  is \<open>2 ^ 16 + 22\<close>; events sent by the emitters \<open>00\<close> and \<open>18446744073709551739\<close>,
  that is \<open>2 ^ 64 + 123\<close>.\<close>

definition req_alias :: ObservationRequest where
  "req_alias = \<lparr>ChainId = 65558, ReqTxHash = [0, 0, 0, 0, 0, 0, 0, 5]\<rparr>"

definition data_00 :: json where
  "data_00 = event_data ''00'' ''0x01ff'' ''9''"

definition data_overflow :: json where
  "data_overflow = event_data ''18446744073709551739'' ''0x01ff'' ''9''"

section \<open>The redeemers (the SDK's token bridge redeem module)\<close>

subsection \<open>Shared types\<close>

text \<open>
  The redeemers are asynchronous functions that return a value or throw. The Ethereum
  and Algorand redeemers only hand the bytes of the message to a contract binding and to
  \<^verbatim>\<open>_submitVAAAlgorand\<close>, which are outside this source; they are left out.
\<close>

type_synonym bytes = "byte list"

text \<open>A thrown \<^verbatim>\<open>Error\<close>, or a promise that rejects, with its message.\<close>

datatype thrown = Error string

text \<open>What \<^verbatim>\<open>parseTransferPayload\<close> returns; it is declared outside this source.\<close>

record TransferPayload =
  amount :: nat
  originAddress :: string
  originChain :: nat
  targetAddress :: string
  targetChain :: nat
  fee :: nat

subsection \<open>Terra\<close>

text \<open>\<^verbatim>\<open>redeemOnTerra\<close> wraps the bytes of the message in a contract call without reading
  them. The base64 text of the bytes is kept as the bytes.\<close>

record MsgExecuteContract =
  sender :: string
  contract :: string
  submit_vaa_data :: bytes

definition redeemOnTerra :: "string \<Rightarrow> string \<Rightarrow> bytes \<Rightarrow> MsgExecuteContract" where
  "redeemOnTerra tokenBridgeAddress walletAddress signedVAA =
     \<lparr>sender = walletAddress, contract = tokenBridgeAddress, submit_vaa_data = signedVAA\<rparr>"

subsection \<open>Solana\<close>

text \<open>
  What the Solana redeemers take from outside this source: the constants of the SDK,
  the parsers, the key check of \<^verbatim>\<open>new PublicKey\<close>, the two queries to the node, the
  generated key pair (its public key) and the two instruction builders of the token
  bridge. \<open>None\<close> is a call that throws; \<^verbatim>\<open>hexToNativeString\<close> may also return
  \<^verbatim>\<open>undefined\<close>.
\<close>

record solana_env =
  CHAIN_ID_SOLANA :: nat
  WSOL_DECIMALS :: int
  MAX_VAA_DECIMALS :: int
  WSOL_ADDRESS :: string
  TOKEN_PROGRAM_ID :: string
  AccountLayout_span :: nat
  parse_vaa :: "bytes \<Rightarrow> bytes option"
  parseTransferPayload :: "bytes \<Rightarrow> TransferPayload option"
  hexToNativeString :: "string \<Rightarrow> nat \<Rightarrow> string option"
  PublicKey_ok :: "string \<Rightarrow> bool"
  getMinBalanceRentForExemptAccount :: "nat option"
  Keypair_generate :: string
  complete_transfer_native_ix ::
    "string \<Rightarrow> string \<Rightarrow> string \<Rightarrow> bytes \<Rightarrow> string option \<Rightarrow> bytes option"
  complete_transfer_wrapped_ix ::
    "string \<Rightarrow> string \<Rightarrow> string \<Rightarrow> bytes \<Rightarrow> string option \<Rightarrow> bytes option"
  getRecentBlockhash :: "string option"

text \<open>
  The instructions of a transaction: one built by the token bridge (its serialised
  form), and those of the system and token programs with their arguments. The amount of
  a transfer is the big number handed to the builder, which encodes its magnitude in
  eight bytes and throws for a magnitude of \<open>2\<^sup>6\<^sup>4\<close> or more. \<open>signatures\<close> lists
  the keys that have signed.
\<close>

datatype instruction =
    FromRust bytes
  | CreateAccount string string nat nat string
  | InitAccount string string string string
  | Transfer string string string string "string list" int
  | CloseAccount string string string string "string list"

record Transaction =
  recentBlockhash :: string
  feePayer :: string
  instructions :: "instruction list"
  signatures :: "string list"

text \<open>The amount to unwrap, \<^verbatim>\<open>parsedPayload.amount * BigInt(WSOL_DECIMALS - MAX_VAA_DECIMALS)
  * BigInt(10)\<close>.\<close>

definition targetAmount :: "solana_env \<Rightarrow> nat \<Rightarrow> int" where
  "targetAmount env amt = int amt * (WSOL_DECIMALS env - MAX_VAA_DECIMALS env) * 10"

definition redeemAndUnwrapOnSolana ::
  "solana_env \<Rightarrow> string \<Rightarrow> string \<Rightarrow> string \<Rightarrow> bytes \<Rightarrow> thrown + Transaction" where
  "redeemAndUnwrapOnSolana env bridgeAddress tokenBridgeAddress payerAddress signedVAA =
     (case parse_vaa env signedVAA of
        None \<Rightarrow> Inl (Error ''parse_vaa'')
      | Some payload \<Rightarrow>
     (case parseTransferPayload env payload of
        None \<Rightarrow> Inl (Error ''parseTransferPayload'')
      | Some parsedPayload \<Rightarrow>
     (case hexToNativeString env (targetAddress parsedPayload) (CHAIN_ID_SOLANA env) of
        None \<Rightarrow> Inl (Error ''Failed to read the target address.'')
      | Some target \<Rightarrow>
     if target = [] then Inl (Error ''Failed to read the target address.'')
     else if \<not> PublicKey_ok env target then Inl (Error ''Invalid public key input'')
     else
     (case getMinBalanceRentForExemptAccount env of
        None \<Rightarrow> Inl (Error ''getMinBalanceRentForExemptAccount'')
      | Some rentBalance \<Rightarrow>
     if \<not> PublicKey_ok env (WSOL_ADDRESS env) then Inl (Error ''Invalid public key input'')
     else if \<not> PublicKey_ok env payerAddress then Inl (Error ''Invalid public key input'')
     else
     (case complete_transfer_native_ix env tokenBridgeAddress bridgeAddress payerAddress
             signedVAA None of
        None \<Rightarrow> Inl (Error ''complete_transfer_native_ix'')
      | Some completeTransferIx \<Rightarrow>
     if 2 ^ 64 \<le> \<bar>targetAmount env (amount parsedPayload)\<bar> then Inl (Error ''u64 too large'')
     else
     (case getRecentBlockhash env of
        None \<Rightarrow> Inl (Error ''getRecentBlockhash'')
      | Some blockhash \<Rightarrow>
          Inr \<lparr>recentBlockhash = blockhash,
               feePayer = payerAddress,
               instructions =
                 [FromRust completeTransferIx,
                  CreateAccount payerAddress (Keypair_generate env) rentBalance
                    (AccountLayout_span env) (TOKEN_PROGRAM_ID env),
                  InitAccount (TOKEN_PROGRAM_ID env) (WSOL_ADDRESS env) (Keypair_generate env)
                    payerAddress,
                  Transfer (TOKEN_PROGRAM_ID env) target (Keypair_generate env) payerAddress []
                    (targetAmount env (amount parsedPayload)),
                  CloseAccount (TOKEN_PROGRAM_ID env) (Keypair_generate env) payerAddress
                    payerAddress []],
               signatures = [Keypair_generate env]\<rparr>))))))"

text \<open>\<^verbatim>\<open>Buffer.readUInt16BE\<close>; \<open>None\<close> is the range error of a read past the end.\<close>

definition readUInt16BE :: "bytes \<Rightarrow> nat \<Rightarrow> nat option" where
  "readUInt16BE buf off =
     (if length buf < off + 2 then None
      else Some (unat (buf ! off) * 256 + unat (buf ! (off + 1))))"

definition redeemOnSolana ::
  "solana_env \<Rightarrow> string \<Rightarrow> string \<Rightarrow> string \<Rightarrow> bytes \<Rightarrow> string option \<Rightarrow>
     thrown + Transaction" where
  "redeemOnSolana env bridgeAddress tokenBridgeAddress payerAddress signedVAA
     feeRecipientAddress =
     (case parse_vaa env signedVAA of
        None \<Rightarrow> Inl (Error ''parse_vaa'')
      | Some payload \<Rightarrow>
     (case readUInt16BE payload 65 of
        None \<Rightarrow> Inl (Error ''ERR_OUT_OF_RANGE'')
      | Some originChainId \<Rightarrow>
     (case (if originChainId = CHAIN_ID_SOLANA env
            then complete_transfer_native_ix env tokenBridgeAddress bridgeAddress
                   payerAddress signedVAA feeRecipientAddress
            else complete_transfer_wrapped_ix env tokenBridgeAddress bridgeAddress
                   payerAddress signedVAA feeRecipientAddress) of
        None \<Rightarrow> Inl (Error ''complete_transfer_ix'')
      | Some ix \<Rightarrow>
     (case getRecentBlockhash env of
        None \<Rightarrow> Inl (Error ''getRecentBlockhash'')
      | Some blockhash \<Rightarrow>
          if \<not> PublicKey_ok env payerAddress then Inl (Error ''Invalid public key input'')
          else
            Inr \<lparr>recentBlockhash = blockhash, feePayer = payerAddress,
                 instructions = [FromRust ix], signatures = []\<rparr>))))"

subsection \<open>NEAR\<close>

text \<open>What \<^verbatim>\<open>_parseVAAAlgorand\<close> returns, as far as \<^verbatim>\<open>redeemOnNear\<close> reads it. The target
  chain and the fee are absent from a message that is no transfer.\<close>

record ParsedVAA =
  ToChain :: "nat option"
  ToAddress :: bytes
  FromChain :: nat
  Contract :: string
  Fee :: "bytes option"

text \<open>The calls \<^verbatim>\<open>redeemOnNear\<close> sends with \<^verbatim>\<open>client.functionCall\<close>: the registration
  of an account with a token contract, and the completion call on the token bridge.\<close>

datatype near_call =
    storage_deposit string string
  | submit_vaa string string

text \<open>
  What \<^verbatim>\<open>redeemOnNear\<close> takes from outside this source: a constant, the parser, the
  hex encoder, and the chain. The two views asked before any call is sent are functions
  of their arguments; the answer of \<^verbatim>\<open>storage_balance_of\<close> (\<open>None\<close> is \<^verbatim>\<open>null\<close>) and
  the result of a call (\<open>None\<close> is a call that fails) depend on the calls sent so far.
\<close>

record near_env =
  CHAIN_ID_NEAR :: nat
  parseVAAAlgorand :: "bytes \<Rightarrow> ParsedVAA option"
  uint8ArrayToHex :: "bytes \<Rightarrow> string"
  hash_lookup :: "string \<Rightarrow> string \<Rightarrow> bool \<times> string"
  getForeignAssetNear :: "string \<Rightarrow> nat \<Rightarrow> string \<Rightarrow> string"
  storage_balance_of :: "near_call list \<Rightarrow> string \<Rightarrow> string \<Rightarrow> string option"
  functionCall_result :: "near_call list \<Rightarrow> near_call \<Rightarrow> string option"

text \<open>Sending a call appends it to the calls sent so far.\<close>

definition functionCall ::
  "near_env \<Rightarrow> near_call \<Rightarrow> near_call list \<Rightarrow> string option \<times> near_call list" where
  "functionCall env c log = (functionCall_result env log c, log @ [c])"

text \<open>
  The block that \<^verbatim>\<open>redeemOnNear\<close> has twice, for the receiver and for the payer of the
  fee: ask the token contract for the storage balance of the account and, when it is
  \<^verbatim>\<open>null\<close>, send \<^verbatim>\<open>storage_deposit\<close>. \<open>False\<close> is a failed call.
\<close>

definition register_if_null ::
  "near_env \<Rightarrow> string \<Rightarrow> string \<Rightarrow> near_call list \<Rightarrow> bool \<times> near_call list" where
  "register_if_null env token account_id log =
     (case storage_balance_of env log token account_id of
        Some bal \<Rightarrow> (True, log)
      | None \<Rightarrow>
          (case functionCall env (storage_deposit token account_id) log of
             (None, log') \<Rightarrow> (False, log')
           | (Some bal, log') \<Rightarrow> (True, log')))"

definition zero_hex :: string where
  "zero_hex = replicate 64 CHR ''0''"

definition fee_present :: "ParsedVAA \<Rightarrow> bool" where
  "fee_present p = (case Fee p of None \<Rightarrow> False | Some f \<Rightarrow> f \<noteq> replicate 32 0)"

definition redeemOnNear ::
  "near_env \<Rightarrow> string \<Rightarrow> string \<Rightarrow> bytes \<Rightarrow> near_call list \<Rightarrow>
     (thrown + string) \<times> near_call list" where
  "redeemOnNear env accountId tokenBridge vaa log =
     (case parseVAAAlgorand env vaa of
        None \<Rightarrow> (Inl (Error ''_parseVAAAlgorand''), log)
      | Some p \<Rightarrow>
     if ToChain p \<noteq> Some (CHAIN_ID_NEAR env) then (Inl (Error ''Not destined for NEAR''), log)
     else
     (case hash_lookup env tokenBridge (uint8ArrayToHex env (ToAddress p)) of
        (found, user) \<Rightarrow>
     if \<not> found
     then (Inl (Error ''Unregistered receiver (receiving account is not registered)''), log)
     else
     (let token = getForeignAssetNear env tokenBridge (FromChain p) (Contract p) in
     if token = [] then (Inl (Error ''Unregistered token (this been attested yet?)''), log)
     else
     (case (if Contract p \<noteq> zero_hex
            then (case register_if_null env token user log of
                    (False, log1) \<Rightarrow> (False, log1)
                  | (True, log1) \<Rightarrow>
                      if fee_present p then register_if_null env token accountId log1
                      else (True, log1))
            else (True, log)) of
        (False, log2) \<Rightarrow> (Inl (Error ''functionCall''), log2)
      | (True, log2) \<Rightarrow>
     (case functionCall env (submit_vaa tokenBridge (uint8ArrayToHex env vaa)) log2 of
        (None, log3) \<Rightarrow> (Inl (Error ''functionCall''), log3)
      | (Some result, log3) \<Rightarrow>
     (case functionCall env (submit_vaa tokenBridge (uint8ArrayToHex env vaa)) log3 of
        (None, log4) \<Rightarrow> (Inl (Error ''functionCall''), log4)
      | (Some result, log4) \<Rightarrow> (Inr result, log4)))))))"

subsection \<open>Vocabulary and concrete inputs for the redeemers\<close>

text \<open>The registration call that the check of an account leads to, given the calls
  sent so far; the amounts of the transfer instructions of a transaction.\<close>

definition registration :: "near_env \<Rightarrow> string \<Rightarrow> string \<Rightarrow> near_call list \<Rightarrow> near_call list" where
  "registration env token account_id log =
     (if storage_balance_of env log token account_id = None
      then [storage_deposit token account_id] else [])"


text \<open>The rescaling rule of the specification, in its words: a wire amount at the
  precision \<open>d_max\<close> is brought to the precision \<open>d_dst\<close> exactly when \<open>d_dst\<close> is at
  least \<open>d_max\<close>, and by truncating the excess digits when it is lower.\<close>

definition rescale_spec :: "nat \<Rightarrow> int \<Rightarrow> int \<Rightarrow> int" where
  "rescale_spec amt d_max d_dst =
     (if d_max \<le> d_dst then int amt * 10 ^ nat (d_dst - d_max)
      else int amt div 10 ^ nat (d_max - d_dst))"

text \<open>
  A transfer of 150 units of an asset of chain 1 to chain 2: its payload (the origin
  chain at offset 65, the target chain at offset 99), its parse, and the bytes of the
  message that carries it.
\<close>

definition transfer_payload_to_eth :: TransferPayload where
  "transfer_payload_to_eth =
     \<lparr>amount = 150, originAddress = ''wsol'', originChain = 1, targetAddress = ''0a'',
      targetChain = 2, fee = 0\<rparr>"

definition payload_to_eth :: bytes where
  "payload_to_eth =
     [1] @ replicate 31 0 @ [150] @ replicate 32 7 @ [0, 1] @ replicate 32 10 @ [0, 2] @
     replicate 32 0"

definition vaa_to_eth :: bytes where
  "vaa_to_eth = [1, 0, 0, 0, 0]"

text \<open>An SDK with the given decimals of wrapped SOL and of the wire format, Solana as
  chain 1, a node that answers, and parsers that know the message above.\<close>

definition sdk :: "int \<Rightarrow> int \<Rightarrow> solana_env" where
  "sdk wsol_decimals max_vaa_decimals =
     \<lparr>CHAIN_ID_SOLANA = 1, WSOL_DECIMALS = wsol_decimals, MAX_VAA_DECIMALS = max_vaa_decimals,
      WSOL_ADDRESS = ''So11111111111111111111111111111111111111112'',
      TOKEN_PROGRAM_ID = ''TokenkegQfeZyiNwAJbNbGKPFXCWuBvf9Ss623VQ5DA'',
      AccountLayout_span = 165,
      parse_vaa = (\<lambda>v. if v = vaa_to_eth then Some payload_to_eth else None),
      parseTransferPayload =
        (\<lambda>b. if b = payload_to_eth then Some transfer_payload_to_eth else None),
      hexToNativeString = (\<lambda>h c. if h = ''0a'' then Some ''target'' else None),
      PublicKey_ok = (\<lambda>k. True),
      getMinBalanceRentForExemptAccount = Some 2039280,
      Keypair_generate = ''ancillary'',
      complete_transfer_native_ix = (\<lambda>t b p v f. Some [2]),
      complete_transfer_wrapped_ix = (\<lambda>t b p v f. Some [3]),
      getRecentBlockhash = Some ''blockhash''\<rparr>"

text \<open>The transactions the two Solana redeemers build for that message.\<close>

definition unwrap_tx :: "int \<Rightarrow> Transaction" where
  "unwrap_tx amt =
     \<lparr>recentBlockhash = ''blockhash'', feePayer = ''payer'',
      instructions =
        [FromRust [2],
         CreateAccount ''payer'' ''ancillary'' 2039280 165
           ''TokenkegQfeZyiNwAJbNbGKPFXCWuBvf9Ss623VQ5DA'',
         InitAccount ''TokenkegQfeZyiNwAJbNbGKPFXCWuBvf9Ss623VQ5DA''
           ''So11111111111111111111111111111111111111112'' ''ancillary'' ''payer'',
         Transfer ''TokenkegQfeZyiNwAJbNbGKPFXCWuBvf9Ss623VQ5DA'' ''target'' ''ancillary''
           ''payer'' [] amt,
         CloseAccount ''TokenkegQfeZyiNwAJbNbGKPFXCWuBvf9Ss623VQ5DA'' ''ancillary'' ''payer''
           ''payer'' []],
      signatures = [''ancillary'']\<rparr>"

definition redeem_tx :: Transaction where
  "redeem_tx =
     \<lparr>recentBlockhash = ''blockhash'', feePayer = ''payer'', instructions = [FromRust [2]],
      signatures = []\<rparr>"

text \<open>
  The same message as \<^verbatim>\<open>_parseVAAAlgorand\<close> reads it, a message to NEAR (chain 15) with
  a fee of 5, and a NEAR chain on which the receiver is known as \<open>alice.near\<close>, the
  asset as \<open>wsol.near\<close>, no account is registered yet and every call succeeds.
\<close>

definition parsed_to_eth :: ParsedVAA where
  "parsed_to_eth =
     \<lparr>ToChain = Some 2, ToAddress = replicate 32 10, FromChain = 1,
      Contract = replicate 64 CHR ''7'', Fee = Some (replicate 32 0)\<rparr>"

definition vaa_to_near :: bytes where
  "vaa_to_near = [1, 0, 0, 0, 1]"

definition parsed_to_near :: ParsedVAA where
  "parsed_to_near =
     \<lparr>ToChain = Some 15, ToAddress = replicate 32 11, FromChain = 1,
      Contract = replicate 64 CHR ''7'', Fee = Some (replicate 31 0 @ [5])\<rparr>"

definition near_fixture :: near_env where
  "near_fixture =
     \<lparr>CHAIN_ID_NEAR = 15,
      parseVAAAlgorand =
        (\<lambda>v. if v = vaa_to_eth then Some parsed_to_eth
             else if v = vaa_to_near then Some parsed_to_near else None),
      uint8ArrayToHex = (\<lambda>b. if b = vaa_to_near then ''0100000001'' else ''0b0b''),
      hash_lookup = (\<lambda>tokenBridge h. (True, ''alice.near'')),
      getForeignAssetNear = (\<lambda>tokenBridge chain address. ''wsol.near''),
      storage_balance_of =
        (\<lambda>log token account_id.
           if storage_deposit token account_id \<in> set log then Some ''1250000000000000000000''
           else None),
      functionCall_result = (\<lambda>log c. Some ''ok'')\<rparr>"

definition near_log :: "near_call list" where
  "near_log =
     [storage_deposit ''wsol.near'' ''alice.near'',
      storage_deposit ''wsol.near'' ''relayer.near'',
      submit_vaa ''bridge.near'' ''0100000001'',
      submit_vaa ''bridge.near'' ''0100000001'']"


section \<open>Properties of the watcher\<close>

subsection \<open>Helper facts about parsing and encoding\<close>

lemma iteration_simps [simp]:
  "iteration aptos rpc CtxDone e = Done e"
  "iteration aptos rpc (Request r) e = fst (on_request aptos rpc r e)"
  "iteration aptos rpc Timer e = fst (on_timer aptos rpc e)"
  by (simp_all add: iteration_def)

lemma fetched_simps [simp]:
  "fetched aptos rpc CtxDone e = []"
  "fetched aptos rpc (Request r) e = snd (on_request aptos rpc r e)"
  "fetched aptos rpc Timer e = snd (on_timer aptos rpc e)"
  by (simp_all add: fetched_def)

lemma parseUint_loop_nondigit:
  "\<exists>c\<in>set s. \<not> is_digit c \<Longrightarrow> parseUint_loop s n = None"
  by (induction s arbitrary: n) auto

lemma Uint_nondigit: "\<exists>c\<in>set s. \<not> is_digit c \<Longrightarrow> Uint (JString s) = 0"
  by (simp add: parseUint_def parseUint_loop_nondigit)

lemma PutUint64_0: "PutUint64 0 = replicate 8 0"
  by (simp add: PutUint64_def numeral_eq_Suc)

lemma pad32_zero: "pad32 (replicate 8 0) = replicate 32 0"
  by (simp add: pad32_def flip: replicate_add)

lemma PutUint64_5: "PutUint64 5 = [0, 0, 0, 0, 0, 0, 0, 5]"
  by (simp add: PutUint64_def)

lemma PutUint64_123: "PutUint64 123 = [0, 0, 0, 0, 0, 0, 0, 123]"
  by (simp add: PutUint64_def)

lemma DecodeString_01ff: "DecodeString ''01ff'' = Some [1, 255]"
  by (simp add: fromHexChar_def)

text \<open>What a sent message says about the event it was decoded from.\<close>

lemma observeData_Observed:
  "observeData aptos data n = Observed m \<Longrightarrow>
     \<exists>em. Get data ''sender'' = Some em \<and> \<not> (String em \<noteq> ''0'' \<and> Uint em = 0) \<and>
          EmitterAddress m = pad32 (PutUint64 (Uint em)) \<and>
          TxHash m = pad32 (PutUint64 n) \<and> EmitterChain m = aptos"
  by (auto simp add: observeData_def split: option.splits if_splits)

lemma observeData_zero: "observeData 22 data_zero 5 = Observed msg_zero"
  by (simp add: observeData_def data_zero_def event_data_def msg_zero_def parseUint_def
      is_digit_def pad32_zero PutUint64_0 PutUint64_5 fromHexChar_def)
    (simp add: pad32_def)

lemma observeData_123: "observeData 22 data_123 5 = Observed msg_123"
  by (simp add: observeData_def data_123_def event_data_def msg_123_def parseUint_def
      is_digit_def pad32_def PutUint64_123 PutUint64_5 fromHexChar_def)

text \<open>What \<^verbatim>\<open>Uint()\<close> makes of a string, and the bytes \<^verbatim>\<open>PutUint64\<close> writes, as
  numbers.\<close>

lemma decimal_acc_mod: "decimal_acc s a mod M = decimal_acc s (a mod M) mod M"
proof (induction s arbitrary: a)
  case Nil
  then show ?case by simp
next
  case (Cons c cs)
  have "decimal_acc (c # cs) a mod M = decimal_acc cs ((a * 10 + (of_char c - 48)) mod M) mod M"
    using Cons.IH [of "a * 10 + (of_char c - 48)"] by simp
  also have "(a * 10 + (of_char c - 48)) mod M = ((a mod M) * 10 + (of_char c - 48)) mod M"
    by (metis mod_add_left_eq mod_mult_left_eq)
  also have "decimal_acc cs (((a mod M) * 10 + (of_char c - 48)) mod M) mod M =
      decimal_acc (c # cs) (a mod M) mod M"
    using Cons.IH [of "(a mod M) * 10 + (of_char c - 48)"] by simp
  finally show ?case .
qed

lemma parseUint_loop_digits:
  "\<forall>c\<in>set s. is_digit c \<Longrightarrow>
     \<exists>w. parseUint_loop s acc = Some w \<and> unat w = decimal_acc s (unat acc) mod 2 ^ 64"
proof (induction s arbitrary: acc)
  case Nil
  have "unat acc < 2 ^ 64"
    using unsigned_less [of acc, where 'a = nat] by simp
  then show ?case by simp
next
  case (Cons c cs)
  let ?d = "(of_char c :: nat) - 48"
  from Cons.prems have dig: "is_digit c" and rest: "\<forall>c\<in>set cs. is_digit c"
    by simp_all
  from Cons.IH [OF rest, of "acc * 10 + of_nat ?d"] obtain w where
    w: "parseUint_loop cs (acc * 10 + of_nat ?d) = Some w"
    "unat w = decimal_acc cs (unat (acc * 10 + of_nat ?d)) mod 2 ^ 64"
    by blast
  have "unat (acc * 10 + of_nat ?d :: u64) = (unat acc * 10 + ?d) mod 2 ^ 64"
    by (simp add: unat_word_ariths unat_of_nat mod_simps)
  with w(2) have "unat w = decimal_acc cs (unat acc * 10 + ?d) mod 2 ^ 64"
    using decimal_acc_mod [of cs "unat acc * 10 + ?d" "2 ^ 64"] by simp
  with w(1) dig show ?case
    by simp
qed

lemma parseUint_numeric:
  "numeric s \<Longrightarrow> \<exists>w. parseUint s = Some w \<and> unat w = decimal_value s mod 2 ^ 64"
  using parseUint_loop_digits [of s 0]
  by (auto simp add: numeric_def parseUint_def decimal_value_def)

lemma unat_byte: "unat (ucast (drop_bit k (v :: u64)) :: byte) = unat v div 2 ^ k mod 256"
  unfolding unsigned_ucast_eq unat_drop_bit_eq
  by (simp add: take_bit_eq_mod drop_bit_eq_div)

lemma horner_step: "(n :: nat) div 2 ^ (k + 8) * 256 + n div 2 ^ k mod 256 = n div 2 ^ k"
  by (simp add: power_add div_mult2_eq)

lemma be_nat_PutUint64: "be_nat (PutUint64 v) = unat v"
proof -
  let ?n = "unat v"
  have top: "?n div 2 ^ 56 mod 256 = ?n div 2 ^ 56"
  proof -
    have "?n < 2 ^ 64" using unsigned_less [of v, where 'a = nat] by simp
    then have "?n div 2 ^ 56 < 256"
      by (simp add: less_mult_imp_div_less)
    then show ?thesis by simp
  qed
  have "be_nat (PutUint64 v) =
      ((((((?n div 2 ^ 56 mod 256 * 256 + ?n div 2 ^ 48 mod 256) * 256 +
        ?n div 2 ^ 40 mod 256) * 256 + ?n div 2 ^ 32 mod 256) * 256 +
        ?n div 2 ^ 24 mod 256) * 256 + ?n div 2 ^ 16 mod 256) * 256 +
        ?n div 2 ^ 8 mod 256) * 256 + ?n mod 256"
    using unat_byte [of 0 v]
    by (simp add: be_nat_def PutUint64_def unat_byte)
  also have "\<dots> = ?n"
  proof -
    have h48: "?n div 2 ^ 56 * 256 + ?n div 2 ^ 48 mod 256 = ?n div 2 ^ 48"
      using horner_step [of ?n 48] by simp
    have h40: "?n div 2 ^ 48 * 256 + ?n div 2 ^ 40 mod 256 = ?n div 2 ^ 40"
      using horner_step [of ?n 40] by simp
    have h32: "?n div 2 ^ 40 * 256 + ?n div 2 ^ 32 mod 256 = ?n div 2 ^ 32"
      using horner_step [of ?n 32] by simp
    have h24: "?n div 2 ^ 32 * 256 + ?n div 2 ^ 24 mod 256 = ?n div 2 ^ 24"
      using horner_step [of ?n 24] by simp
    have h16: "?n div 2 ^ 24 * 256 + ?n div 2 ^ 16 mod 256 = ?n div 2 ^ 16"
      using horner_step [of ?n 16] by simp
    have h8: "?n div 2 ^ 16 * 256 + ?n div 2 ^ 8 mod 256 = ?n div 2 ^ 8"
      using horner_step [of ?n 8] by simp
    have h0: "?n div 2 ^ 8 * 256 + ?n mod 256 = ?n"
      using horner_step [of ?n 0] by simp
    show ?thesis
      by (simp only: top h48 h40 h32 h24 h16 h8 h0)
  qed
  finally show ?thesis .
qed

lemma length_PutUint64: "length (PutUint64 v) = 8"
  by (simp add: PutUint64_def)

lemma pad32_shape:
  "length (pad32 (PutUint64 v)) = 32 \<and> take 24 (pad32 (PutUint64 v)) = replicate 24 0 \<and>
   be_nat (drop 24 (pad32 (PutUint64 v))) = unat v"
  by (simp add: pad32_def length_PutUint64 be_nat_PutUint64)

lemma Uint_numeric:
  "numeric s \<Longrightarrow> unat (Uint (JString s)) = decimal_value s mod 2 ^ 64"
  using parseUint_numeric [of s] by auto

lemma Uint_not_numeric: "\<not> numeric s \<Longrightarrow> Uint (JString s) = 0"
proof (cases "s = []")
  case True
  then show ?thesis by (simp add: parseUint_def)
next
  case False
  assume "\<not> numeric s"
  with False have "\<exists>c\<in>set s. \<not> is_digit c"
    by (simp add: numeric_def)
  then show ?thesis by (rule Uint_nondigit)
qed

subsection \<open>Health failures\<close>

text \<open>
  Claim C1, as the code has it. After a poll whose page was read without a panic, a
  health response that is not valid JSON adds one to the error count and the loop goes
  on. A transport error of the health query also adds one to the error count, but the
  error is sent on \<^verbatim>\<open>errC\<close>, so that \<^verbatim>\<open>Run\<close> returns it: it is fatal, like a
  transport error of the event query.
\<close>

theorem health_failure:
  assumes "rpc (poll_query e) = Body (Valid outcomes)"
    and "poll_chunks aptos (Array outcomes) e = Inr e'"
  shows "(rpc HealthQuery = TransportError \<longrightarrow>
            iteration aptos rpc Timer e = Fatal (e'\<lparr>errorCount := errorCount e' + 1\<rparr>)) \<and>
         (rpc HealthQuery = Body Invalid \<or> rpc HealthQuery = Body Empty \<longrightarrow>
            iteration aptos rpc Timer e = Continue (e'\<lparr>errorCount := errorCount e' + 1\<rparr>))"
  using assms by (auto simp add: on_timer_def health_check_def)

theorem health_failure_witness:
  "(rpc_health_down HealthQuery = TransportError \<and>
      iteration 22 rpc_health_down Timer w5 = Fatal (w5\<lparr>errorCount := errorCount w5 + 1\<rparr>)) \<and>
   (rpc_health_garbled HealthQuery = Body Invalid \<and>
      iteration 22 rpc_health_garbled Timer w5 =
        Continue (w5\<lparr>errorCount := errorCount w5 + 1\<rparr>))"
proof -
  have q: "poll_query w5 = EventQuery (Some 5) None"
    by (simp add: poll_query_def w5_def)
  have a1: "rpc_health_down (poll_query w5) = Body (Valid page_empty)"
    by (simp add: q)
  have a2: "rpc_health_garbled (poll_query w5) = Body (Valid page_empty)"
    by (simp add: q)
  have p: "poll_chunks 22 (Array page_empty) w5 = Inr w5"
    by (simp add: page_empty_def)
  from health_failure [where rpc = rpc_health_down and e = w5 and outcomes = page_empty
      and aptos = 22 and e' = w5, OF a1 p]
    health_failure [where rpc = rpc_health_garbled and e = w5 and outcomes = page_empty
      and aptos = 22 and e' = w5, OF a2 p]
  show ?thesis
    by simp
qed

text \<open>
  The claim as the specification states it fails: with a node whose health endpoint
  cannot be reached, the poll cycle of a watcher at cursor 5 ends \<^verbatim>\<open>Run\<close>.
\<close>

theorem health_transport_error_is_fatal:
  "rpc_health_down HealthQuery = TransportError \<and>
   iteration 22 rpc_health_down Timer w5 = Fatal (w5\<lparr>errorCount := 1\<rparr>)"
  by (simp add: on_timer_def health_check_def poll_query_def w5_def page_empty_def)

subsection \<open>Decoding an event\<close>

text \<open>An event that lacks one of the six fields never yields a message.\<close>

lemma observeData_missing_field:
  assumes "k \<in> {''sender'', ''payload'', ''timestamp'', ''nonce'', ''sequence'',
                  ''consistency_level''}"
    and "Get data k = None"
  shows "\<forall>m. observeData aptos data n \<noteq> Observed m"
  using assms by (auto simp add: observeData_def split: option.splits if_splits)

text \<open>
  Claim C3 says that decoding never crashes. The code slices the payload string with
  \<^verbatim>\<open>[2:]\<close> without looking at its length: an event whose payload is the empty string
  makes \<^verbatim>\<open>observeData\<close> panic, and with it the poll cycle that listed the event.
\<close>

theorem short_payload_panics:
  "observeData 22 data_no_payload 5 = Panic ''slice bounds out of range'' \<and>
   iteration 22 rpc_short_payload Timer w5 =
     Panicked ''slice bounds out of range'' (w5\<lparr>next_sequence := 6\<rparr>)"
  by (simp add: observeData_def data_no_payload_def event_data_def event_chunk_def
      on_timer_def poll_query_def w5_def parseUint_def is_digit_def)

text \<open>The two literals of the specification, and the strings with a character that is
  not a decimal digit.\<close>

lemma emitter_literals:
  assumes "Get data ''sender'' = Some (JString s)"
  shows "(s = ''0'' \<longrightarrow>
            observeData aptos data n \<noteq> Dropped ''Invalid emitter'' \<and>
            (\<forall>m. observeData aptos data n = Observed m \<longrightarrow>
               EmitterAddress m = replicate 32 0)) \<and>
         (s = ''123'' \<longrightarrow>
            observeData aptos data n \<noteq> Dropped ''Invalid emitter'' \<and>
            (\<forall>m. observeData aptos data n = Observed m \<longrightarrow>
               EmitterAddress m = replicate 24 0 @ [0, 0, 0, 0, 0, 0, 0, 123])) \<and>
         ((\<exists>c\<in>set s. \<not> is_digit c) \<longrightarrow>
            observeData aptos data n = Dropped ''Invalid emitter'')"
proof (intro conjI impI)
  assume nd: "\<exists>c\<in>set s. \<not> is_digit c"
  then have "Uint (JString s) = 0"
    by (rule Uint_nondigit)
  moreover from nd have "s \<noteq> ''0''"
    by (auto simp add: is_digit_def)
  ultimately show "observeData aptos data n = Dropped ''Invalid emitter''"
    using assms by (simp add: observeData_def)
next
  assume "s = ''0''"
  with assms show "observeData aptos data n \<noteq> Dropped ''Invalid emitter''"
    by (auto simp add: observeData_def split: option.splits)
next
  assume s: "s = ''0''"
  show "\<forall>m. observeData aptos data n = Observed m \<longrightarrow> EmitterAddress m = replicate 32 0"
  proof (intro allI impI)
    fix m assume "observeData aptos data n = Observed m"
    from observeData_Observed [OF this] assms s
    have "EmitterAddress m = pad32 (PutUint64 0)"
      by (auto simp add: parseUint_def is_digit_def)
    then show "EmitterAddress m = replicate 32 0"
      by (simp add: pad32_zero PutUint64_0)
  qed
next
  assume "s = ''123''"
  with assms show "observeData aptos data n \<noteq> Dropped ''Invalid emitter''"
    by (auto simp add: observeData_def parseUint_def is_digit_def split: option.splits)
next
  assume s: "s = ''123''"
  show "\<forall>m. observeData aptos data n = Observed m \<longrightarrow>
          EmitterAddress m = replicate 24 0 @ [0, 0, 0, 0, 0, 0, 0, 123]"
  proof (intro allI impI)
    fix m assume "observeData aptos data n = Observed m"
    from observeData_Observed [OF this] assms s
    have "EmitterAddress m = pad32 (PutUint64 123)"
      by (auto simp add: parseUint_def is_digit_def)
    then show "EmitterAddress m = replicate 24 0 @ [0, 0, 0, 0, 0, 0, 0, 123]"
      by (simp add: pad32_def PutUint64_123)
  qed
qed

text \<open>The numeric strings, and the strings the emitter check rejects.\<close>

lemma emitter_digits:
  assumes "Get data ''sender'' = Some (JString s)"
    and "numeric s" and "decimal_value s mod 2 ^ 64 \<noteq> 0"
  shows "observeData aptos data n \<noteq> Dropped ''Invalid emitter'' \<and>
         (\<forall>m. observeData aptos data n = Observed m \<longrightarrow>
            length (EmitterAddress m) = 32 \<and>
            take 24 (EmitterAddress m) = replicate 24 0 \<and>
            be_nat (drop 24 (EmitterAddress m)) = decimal_value s mod 2 ^ 64)"
proof -
  from assms(2,3) have nz: "Uint (JString s) \<noteq> 0"
    using Uint_numeric [of s] by (auto simp del: Uint.simps)
  have 1: "observeData aptos data n \<noteq> Dropped ''Invalid emitter''"
    using assms(1) nz
    by (auto simp add: observeData_def simp del: Uint.simps split: option.splits)
  have 2: "\<forall>m. observeData aptos data n = Observed m \<longrightarrow>
            length (EmitterAddress m) = 32 \<and>
            take 24 (EmitterAddress m) = replicate 24 0 \<and>
            be_nat (drop 24 (EmitterAddress m)) = decimal_value s mod 2 ^ 64"
  proof (intro allI impI)
    fix m assume "observeData aptos data n = Observed m"
    from observeData_Observed [OF this] assms(1)
    have "EmitterAddress m = pad32 (PutUint64 (Uint (JString s)))"
      by (auto simp del: Uint.simps)
    with pad32_shape [of "Uint (JString s)"] Uint_numeric [OF assms(2)]
    show "length (EmitterAddress m) = 32 \<and>
            take 24 (EmitterAddress m) = replicate 24 0 \<and>
            be_nat (drop 24 (EmitterAddress m)) = decimal_value s mod 2 ^ 64"
      by (simp del: Uint.simps)
  qed
  from 1 2 show ?thesis by blast
qed

lemma emitter_rejected:
  assumes "Get data ''sender'' = Some (JString s)"
    and "s \<noteq> ''0''" and "\<not> (numeric s \<and> decimal_value s mod 2 ^ 64 \<noteq> 0)"
  shows "observeData aptos data n = Dropped ''Invalid emitter''"
proof -
  have "Uint (JString s) = 0"
  proof (cases "numeric s")
    case True
    with assms(3) have "unat (Uint (JString s)) = 0"
      using Uint_numeric [of s] by (simp del: Uint.simps)
    then show ?thesis
      by (simp add: unat_eq_0 del: Uint.simps)
  next
    case False
    then show ?thesis by (rule Uint_not_numeric)
  qed
  with assms(1,2) show ?thesis
    by (simp add: observeData_def del: Uint.simps)
qed

lemma observe_00: "observeData 22 data_00 5 = Dropped ''Invalid emitter''"
  by (simp add: observeData_def data_00_def event_data_def parseUint_def is_digit_def)

lemma Uint_overflow: "Uint (JString ''18446744073709551739'') = 123"
  by (simp add: parseUint_def is_digit_def)

lemma observe_overflow: "observeData 22 data_overflow 5 = Observed msg_123"
  by (simp add: observeData_def data_overflow_def event_data_def msg_123_def Uint_overflow
      pad32_def PutUint64_123 PutUint64_5 fromHexChar_def parseUint_def is_digit_def
      del: Uint.simps)
    (simp add: parseUint_def is_digit_def)

text \<open>
  Claim C9, as the code has it. For an event whose sender is a string: the string \<open>0\<close>
  passes the emitter check and gives the address of 32 zero bytes; the string \<open>123\<close>
  passes it and gives 24 zero bytes followed by the big-endian eight bytes of 123; every
  numeric string whose number is not a multiple of \<open>2 ^ 64\<close> passes it and gives an
  address of 32 bytes, 24 zero bytes followed by eight bytes that read big-endian are
  that number modulo \<open>2 ^ 64\<close>; a string with a character that is not a decimal digit
  drops the event at the emitter check, and so does every other string except \<open>0\<close>.
\<close>

theorem emitter_parsing:
  assumes "Get data ''sender'' = Some (JString s)"
  shows "(s = ''0'' \<longrightarrow>
            observeData aptos data n \<noteq> Dropped ''Invalid emitter'' \<and>
            (\<forall>m. observeData aptos data n = Observed m \<longrightarrow>
               EmitterAddress m = replicate 32 0)) \<and>
         (s = ''123'' \<longrightarrow>
            observeData aptos data n \<noteq> Dropped ''Invalid emitter'' \<and>
            (\<forall>m. observeData aptos data n = Observed m \<longrightarrow>
               EmitterAddress m = replicate 24 0 @ [0, 0, 0, 0, 0, 0, 0, 123])) \<and>
         (numeric s \<and> decimal_value s mod 2 ^ 64 \<noteq> 0 \<longrightarrow>
            observeData aptos data n \<noteq> Dropped ''Invalid emitter'' \<and>
            (\<forall>m. observeData aptos data n = Observed m \<longrightarrow>
               length (EmitterAddress m) = 32 \<and>
               take 24 (EmitterAddress m) = replicate 24 0 \<and>
               be_nat (drop 24 (EmitterAddress m)) = decimal_value s mod 2 ^ 64)) \<and>
         ((\<exists>c\<in>set s. \<not> is_digit c) \<longrightarrow>
            observeData aptos data n = Dropped ''Invalid emitter'') \<and>
         (s \<noteq> ''0'' \<and> \<not> (numeric s \<and> decimal_value s mod 2 ^ 64 \<noteq> 0) \<longrightarrow>
            observeData aptos data n = Dropped ''Invalid emitter'')"
  using emitter_literals [OF assms, of aptos n] emitter_digits [OF assms, of aptos n]
    emitter_rejected [OF assms, of aptos n]
  by blast

theorem emitter_parsing_witness:
  "(Get data_zero ''sender'' = Some (JString ''0'') \<and>
      observeData 22 data_zero 5 = Observed msg_zero \<and>
      EmitterAddress msg_zero = replicate 32 0) \<and>
   (Get data_123 ''sender'' = Some (JString ''123'') \<and>
      numeric ''123'' \<and> decimal_value ''123'' mod 2 ^ 64 = 123 \<and>
      observeData 22 data_123 5 = Observed msg_123 \<and>
      EmitterAddress msg_123 = replicate 24 0 @ [0, 0, 0, 0, 0, 0, 0, 123] \<and>
      be_nat (drop 24 (EmitterAddress msg_123)) = 123) \<and>
   (Get data_abc ''sender'' = Some (JString ''abc'') \<and>
      \<not> is_digit CHR ''a'' \<and>
      observeData 22 data_abc 5 = Dropped ''Invalid emitter'') \<and>
   (Get data_00 ''sender'' = Some (JString ''00'') \<and>
      ''00'' \<noteq> ''0'' \<and> decimal_value ''00'' mod 2 ^ 64 = 0 \<and>
      observeData 22 data_00 5 = Dropped ''Invalid emitter'')"
proof -
  have g0: "Get data_zero ''sender'' = Some (JString ''0'')"
    by (simp add: data_zero_def event_data_def)
  have g1: "Get data_123 ''sender'' = Some (JString ''123'')"
    by (simp add: data_123_def event_data_def)
  have g2: "Get data_abc ''sender'' = Some (JString ''abc'')"
    by (simp add: data_abc_def event_data_def)
  have g3: "Get data_00 ''sender'' = Some (JString ''00'')"
    by (simp add: data_00_def event_data_def)
  have a: "\<not> is_digit CHR ''a''"
    by (simp add: is_digit_def)
  then have nd: "\<exists>c\<in>set ''abc''. \<not> is_digit c"
    by simp
  have num: "numeric ''123''"
    by (simp add: numeric_def is_digit_def)
  have v: "decimal_value ''123'' mod 2 ^ 64 = 123"
    by (simp add: decimal_value_def)
  have z: "''00'' \<noteq> ''0''" "decimal_value ''00'' mod 2 ^ 64 = 0"
    by (simp_all add: decimal_value_def)
  from emitter_parsing [OF g0, of 22 5] observeData_zero
  have r0: "EmitterAddress msg_zero = replicate 32 0"
    by blast
  from emitter_parsing [OF g1, of 22 5] observeData_123
  have r1: "EmitterAddress msg_123 = replicate 24 0 @ [0, 0, 0, 0, 0, 0, 0, 123]"
    by blast
  from emitter_parsing [OF g1, of 22 5] observeData_123 num v
  have "be_nat (drop 24 (EmitterAddress msg_123)) = decimal_value ''123'' mod 2 ^ 64"
    by (metis zero_neq_numeral)
  with v have r1b: "be_nat (drop 24 (EmitterAddress msg_123)) = 123"
    by simp
  from emitter_parsing [OF g2, of 22 5] nd
  have r2: "observeData 22 data_abc 5 = Dropped ''Invalid emitter''"
    by blast
  from emitter_parsing [OF g3, of 22 5] z
  have r3: "observeData 22 data_00 5 = Dropped ''Invalid emitter''"
    by blast
  from g0 g1 g2 g3 a num v z r0 r1 r1b r2 r3 observeData_zero observeData_123 show ?thesis
    by blast
qed

text \<open>
  The claim as the specification states it fails for two kinds of numeric strings: those
  whose number is a multiple of \<open>2 ^ 64\<close> other than the string \<open>0\<close> are dropped, as
  \<open>00\<close> is, and those whose number is \<open>2 ^ 64\<close> or more give the address of another
  emitter, as \<open>18446744073709551739\<close> gives that of the emitter 123.
\<close>

theorem emitter_parsing_counterexample:
  "Get data_00 ''sender'' = Some (JString ''00'') \<and> numeric ''00'' \<and>
   observeData 22 data_00 5 = Dropped ''Invalid emitter'' \<and>
   Get data_overflow ''sender'' = Some (JString ''18446744073709551739'') \<and>
   numeric ''18446744073709551739'' \<and>
   decimal_value ''18446744073709551739'' = 2 ^ 64 + 123 \<and>
   observeData 22 data_overflow 5 = Observed msg_123 \<and>
   EmitterAddress msg_123 = replicate 24 0 @ [0, 0, 0, 0, 0, 0, 0, 123]"
  by (simp only: observe_00 observe_overflow)
    (simp add: data_00_def data_overflow_def event_data_def numeric_def is_digit_def
      decimal_value_def msg_123_def)

subsection \<open>Evaluating the concrete inputs\<close>

lemma PutUint64_small:
  "PutUint64 0 = [0, 0, 0, 0, 0, 0, 0, 0]"
  "PutUint64 3 = [0, 0, 0, 0, 0, 0, 0, 3]"
  "PutUint64 6 = [0, 0, 0, 0, 0, 0, 0, 6]"
  "PutUint64 7 = [0, 0, 0, 0, 0, 0, 0, 7]"
  by (simp_all add: PutUint64_def)

lemma Uint_small:
  "Uint (JString ''3'') = 3" "Uint (JString ''5'') = 5" "Uint (JString ''6'') = 6"
  "Uint (JString ''7'') = 7" "Uint (JString ''100'') = 100"
  by (simp_all add: parseUint_def is_digit_def)

lemma observe_123_at:
  "observeData 22 data_123 5 = Observed msg_123"
  "observeData 22 data_123 7 = Observed (msg_at 7 123 9)"
  by (simp_all add: observeData_def data_123_def event_data_def msg_123_def msg_at_def
      parseUint_def is_digit_def pad32_def PutUint64_123 PutUint64_5 PutUint64_small
      fromHexChar_def)

lemma observe_seq2_at:
  "observeData 22 data_seq2 6 = Observed (msg_at 6 0 2)"
  "observeData 22 data_seq2 3 = Observed (msg_at 3 0 2)"
  by (simp_all add: observeData_def data_seq2_def event_data_def msg_at_def
      parseUint_def is_digit_def pad32_def PutUint64_small fromHexChar_def)

lemma Get_chunk:
  "Get (event_chunk sn d) ''sequence_number'' = Some (JString sn)"
  "Get (event_chunk sn d) ''data'' = Some d"
  by (simp_all add: event_chunk_def)

lemma poll_two_emitters:
  "iteration 22 rpc_two_emitters Timer w5 =
     Continue \<lparr>next_sequence = 7, msgChan = [msg_123, msg_at 6 0 2], errorCount = 0,
               height = Some 100, ready = True\<rparr>"
  by (simp add: on_timer_def poll_query_def w5_def page_two_emitters_def Get_chunk
      observe_123_at observe_seq2_at health_check_def health_ok_def
      parseUint_def is_digit_def)

lemma poll_unordered:
  "iteration 22 rpc_unordered Timer w5 =
     Continue \<lparr>next_sequence = 4, msgChan = [msg_at 7 123 9, msg_at 3 0 2], errorCount = 0,
               height = Some 100, ready = True\<rparr>"
  by (simp add: on_timer_def poll_query_def w5_def page_unordered_def Get_chunk
      observe_123_at observe_seq2_at health_check_def health_ok_def
      parseUint_def is_digit_def)



subsection \<open>Replay requests for another chain\<close>

text \<open>
  Claim C10, as the code has it. The chain identifier of a request is a 32-bit number,
  and line 205 compares its conversion to the 16-bit \<^verbatim>\<open>vaa.ChainID\<close> with the Aptos
  chain identifier. A request whose converted identifier differs makes the loop panic
  before any query is sent, the watcher left as it was: the request is neither dropped
  nor counted as an error. A request whose converted identifier is the Aptos one never
  meets that panic.
\<close>

theorem request_other_chain_panics:
  "(ucast (ChainId r) \<noteq> aptos \<longrightarrow>
      iteration aptos rpc (Request r) e = Panicked ''invalid chain ID'' e \<and>
      fetched aptos rpc (Request r) e = []) \<and>
   (ucast (ChainId r) = aptos \<longrightarrow>
      (\<forall>e'. iteration aptos rpc (Request r) e \<noteq> Panicked ''invalid chain ID'' e'))"
proof (intro conjI impI allI)
  assume "ucast (ChainId r) \<noteq> aptos"
  then show "iteration aptos rpc (Request r) e = Panicked ''invalid chain ID'' e"
    and "fetched aptos rpc (Request r) e = []"
    by (simp_all add: on_request_def)
next
  fix e'
  assume a: "ucast (ChainId r) = aptos"
  have np: "\<And>S chunks w. replay_chunks aptos S chunks e \<noteq> Inl (''invalid chain ID'', w)"
  proof -
    fix S chunks w
    show "replay_chunks aptos S chunks e \<noteq> Inl (''invalid chain ID'', w)"
    proof (induction chunks arbitrary: e)
      case Nil
      then show ?case by simp
    next
      case (Cons chunk rest)
      then show ?case
        by (auto simp add: observeData_def split: option.splits if_splits observed.splits)
    qed
  qed
  show "iteration aptos rpc (Request r) e \<noteq> Panicked ''invalid chain ID'' e'"
    using a np
    by (auto simp add: on_request_def split: option.splits response.splits body.splits
        sum.splits)
qed

theorem request_other_chain_panics_witness:
  "(ucast (ChainId req_solana) \<noteq> (22 :: u16) \<and>
      iteration 22 rpc_down (Request req_solana) w5 = Panicked ''invalid chain ID'' w5 \<and>
      fetched 22 rpc_down (Request req_solana) w5 = []) \<and>
   (ucast (ChainId req_alias) = (22 :: u16) \<and>
      iteration 22 rpc_replay (Request req_alias) w5 \<noteq> Panicked ''invalid chain ID'' w5)"
proof -
  have h: "ucast (ChainId req_solana) \<noteq> (22 :: u16)"
    by (simp add: req_solana_def)
  have k: "ucast (ChainId req_alias) = (22 :: u16)"
    by (simp add: req_alias_def)
  from request_other_chain_panics [of req_solana 22 rpc_down w5] h
  have 1: "iteration 22 rpc_down (Request req_solana) w5 = Panicked ''invalid chain ID'' w5"
    and 2: "fetched 22 rpc_down (Request req_solana) w5 = []"
    by blast+
  from request_other_chain_panics [of req_alias 22 rpc_replay w5] k
  have 3: "iteration 22 rpc_replay (Request req_alias) w5 \<noteq> Panicked ''invalid chain ID'' w5"
    by blast
  from h k 1 2 3 show ?thesis
    by blast
qed

text \<open>
  The claim as stated fails for the identifiers that differ from the Aptos one only above
  their low 16 bits: the request for chain 65558 is replayed like a request for chain 22.
\<close>

theorem request_other_chain_counterexample:
  "ChainId req_alias \<noteq> 22 \<and> ucast (ChainId req_alias) = (22 :: u16) \<and>
   iteration 22 rpc_replay (Request req_alias) w5 = Continue (w5\<lparr>msgChan := [msg_123]\<rparr>)"
  by (simp add: on_request_def req_alias_def Uint64_def Get_chunk observe_123_at
      parseUint_def is_digit_def w5_def)

subsection \<open>Replay cycles\<close>


lemma replay_chunks_mismatch:
  "Get chunk ''sequence_number'' = Some sn \<Longrightarrow> Uint sn \<noteq> S \<Longrightarrow>
     replay_chunks aptos S (chunk # rest) e = Inr e"
  by simp







subsection \<open>Warm poll cycles\<close>

lemma page_seqs_Cons_None [simp]:
  "Get chunk ''sequence_number'' = None \<Longrightarrow> page_seqs (chunk # rest) = page_seqs rest"
  by (simp add: page_seqs_def chunk_seq_def)

lemma page_seqs_Cons_Some [simp]:
  "Get chunk ''sequence_number'' = Some sn \<Longrightarrow>
     page_seqs (chunk # rest) = Uint sn # page_seqs rest"
  by (simp add: page_seqs_def chunk_seq_def)

lemma page_seqs_Nil [simp]: "page_seqs [] = []"
  by (simp add: page_seqs_def)

lemma poll_chunks_no_seqs:
  "page_seqs page = [] \<Longrightarrow> poll_chunks aptos page e = Inr e"
proof (induction page)
  case Nil
  then show ?case by simp
next
  case (Cons chunk rest)
  then show ?case
    by (cases "Get chunk ''sequence_number''") auto
qed

lemma page_msgs_no_seqs:
  "page_seqs page = [] \<Longrightarrow> page_msgs aptos page = []"
proof (induction page)
  case Nil
  then show ?case by (simp add: page_msgs_def)
next
  case (Cons chunk rest)
  then show ?case
    by (cases "Get chunk ''sequence_number''")
      (auto simp add: page_msgs_def chunk_msg_def)
qed

lemma word_less_succ_nonzero: "(s :: u64) < t \<Longrightarrow> s + 1 \<noteq> 0"
proof
  assume lt: "s < t" and z: "s + 1 = 0"
  from z have "s = - 1"
    by (simp add: add_eq_0_iff2)
  with lt show False
    by (simp add: word_order.not_eq_extremum [symmetric] not_less)
qed

lemma sorted_last_Max:
  "sorted_wrt (<) (xs :: u64 list) \<Longrightarrow> xs \<noteq> [] \<Longrightarrow> last xs = Max (set xs)"
proof (induction xs)
  case Nil
  then show ?case by simp
next
  case (Cons x xs)
  show ?case
  proof (cases "xs = []")
    case True
    then show ?thesis by simp
  next
    case False
    with Cons have l: "last xs = Max (set xs)" by simp
    from False have "Max (set xs) \<in> set xs" by simp
    with Cons.prems have "x < Max (set xs)" by auto
    with False l show ?thesis by (auto simp add: max_def)
  qed
qed

lemma page_msgs_Cons: "page_msgs aptos (chunk # rest) = sent_for aptos chunk @ page_msgs aptos rest"
  by (simp add: page_msgs_def sent_for_def split: option.splits)

lemma sent_for_no_seq: "Get chunk ''sequence_number'' = None \<Longrightarrow> sent_for aptos chunk = []"
  by (simp add: sent_for_def chunk_msg_def)

lemma sent_for_seq:
  "Get chunk ''sequence_number'' = Some sn \<Longrightarrow> p \<in> set (sent_for aptos chunk) \<Longrightarrow>
     fst p = Uint sn \<and> TxHash (snd p) = pad32 (PutUint64 (Uint sn))"
  by (auto simp add: sent_for_def chunk_msg_def split: option.splits observed.splits
      dest: observeData_Observed)

lemma poll_chunks_step:
  assumes "Get chunk ''sequence_number'' = Some sn" and "next_sequence e \<noteq> 0"
    and "poll_chunks aptos (chunk # rest) e = Inr e'"
  shows "\<exists>e2. poll_chunks aptos rest e2 = Inr e' \<and> next_sequence e2 = Uint sn + 1 \<and>
           msgChan e2 = msgChan e @ map snd (sent_for aptos chunk)"
  using assms
  by (auto simp add: sent_for_def chunk_msg_def Let_def split: option.splits observed.splits)

lemma poll_chunks_warm:
  "next_sequence e \<noteq> 0 \<Longrightarrow> sorted_wrt (<) (page_seqs page) \<Longrightarrow>
   poll_chunks aptos page e = Inr e' \<Longrightarrow>
     msgChan e' = msgChan e @ map snd (page_msgs aptos page) \<and>
     next_sequence e' =
       (if page_seqs page = [] then next_sequence e else last (page_seqs page) + 1)"
proof (induction page arbitrary: e)
  case Nil
  then show ?case by (simp add: page_msgs_def)
next
  case (Cons chunk rest)
  show ?case
  proof (cases "Get chunk ''sequence_number''")
    case None
    with Cons.prems have "sorted_wrt (<) (page_seqs rest)" "poll_chunks aptos rest e = Inr e'"
      by simp_all
    from Cons.IH [OF Cons.prems(1) this] None show ?thesis
      by (simp add: page_msgs_Cons sent_for_no_seq)
  next
    case (Some sn)
    from poll_chunks_step [OF Some Cons.prems(1) Cons.prems(3)] obtain e2 where e2:
      "poll_chunks aptos rest e2 = Inr e'" "next_sequence e2 = Uint sn + 1"
      "msgChan e2 = msgChan e @ map snd (sent_for aptos chunk)"
      by blast
    from Cons.prems(2) Some have srt: "sorted_wrt (<) (page_seqs rest)"
      and lt: "\<forall>t\<in>set (page_seqs rest). Uint sn < t"
      by simp_all
    show ?thesis
    proof (cases "page_seqs rest = []")
      case True
      with e2(1) have "e' = e2"
        by (simp add: poll_chunks_no_seqs)
      with e2 True Some show ?thesis
        by (simp add: page_msgs_Cons page_msgs_no_seqs)
    next
      case False
      then obtain t where "t \<in> set (page_seqs rest)"
        by (cases "page_seqs rest") auto
      with lt have "Uint sn < t" by blast
      then have "next_sequence e2 \<noteq> 0"
        unfolding e2(2) by (rule word_less_succ_nonzero)
      from Cons.IH [OF this srt e2(1)] e2 False Some show ?thesis
        by (simp add: page_msgs_Cons)
    qed
  qed
qed

lemma page_msgs_subset: "fst ` set (page_msgs aptos page) \<subseteq> set (page_seqs page)"
proof (induction page)
  case Nil
  then show ?case by (simp add: page_msgs_def)
next
  case (Cons chunk rest)
  then show ?case
    by (cases "Get chunk ''sequence_number''")
      (auto simp add: page_msgs_Cons sent_for_no_seq dest: sent_for_seq)
qed

lemma page_msgs_TxHash:
  "p \<in> set (page_msgs aptos page) \<Longrightarrow> TxHash (snd p) = pad32 (PutUint64 (fst p))"
proof (induction page)
  case Nil
  then show ?case by (simp add: page_msgs_def)
next
  case (Cons chunk rest)
  then show ?case
    by (cases "Get chunk ''sequence_number''")
      (auto simp add: page_msgs_Cons sent_for_no_seq dest: sent_for_seq)
qed

lemma sent_for_length: "length (sent_for aptos chunk) \<le> 1"
  by (simp add: sent_for_def split: option.splits)

lemma page_msgs_sorted:
  "sorted_wrt (<) (page_seqs page) \<Longrightarrow> sorted_wrt (<) (map fst (page_msgs aptos page))"
proof (induction page)
  case Nil
  then show ?case by (simp add: page_msgs_def)
next
  case (Cons chunk rest)
  show ?case
  proof (cases "Get chunk ''sequence_number''")
    case None
    with Cons show ?thesis
      by (simp add: page_msgs_Cons sent_for_no_seq)
  next
    case (Some sn)
    with Cons.prems have srt: "sorted_wrt (<) (page_seqs rest)"
      and lt: "\<forall>t\<in>set (page_seqs rest). Uint sn < t"
      by simp_all
    have h: "\<forall>p\<in>set (sent_for aptos chunk). fst p = Uint sn"
      using sent_for_seq [OF Some] by blast
    have "\<forall>q\<in>set (page_msgs aptos rest). Uint sn < fst q"
      using lt page_msgs_subset [of aptos rest] by auto
    with h Cons.IH [OF srt] sent_for_length [of aptos chunk] show ?thesis
      by (cases "sent_for aptos chunk") (auto simp add: page_msgs_Cons)
  qed
qed

lemma health_check_keeps:
  "msgChan (final (health_check rpc e)) = msgChan e \<and>
   next_sequence (final (health_check rpc e)) = next_sequence e"
  by (simp add: health_check_def split: response.splits body.splits option.splits)

text \<open>
  Claim C4, as the code has it. The watcher compares no sequence number with its cursor
  and keeps the last one it read: it relies on the node to list the events from the
  cursor on in ascending order. For a poll from the cursor \<open>C \<noteq> 0\<close> whose page lists
  strictly increasing sequence numbers, all at least \<open>C\<close>, and is read without a panic:
  the messages sent are those of the valid events of the page, in the order of the page;
  their source sequence numbers, which their \<^verbatim>\<open>TxHash\<close> carries, are strictly increasing
  and at least \<open>C\<close>; the cursor becomes the greatest sequence number of the page plus one
  and stays \<open>C\<close> for a page without sequence numbers. The \<^verbatim>\<open>Sequence\<close> of a message is
  the \<^verbatim>\<open>sequence\<close> of its event data, whatever its order.
\<close>

theorem warm_poll:
  assumes "next_sequence e = C" and "C \<noteq> 0"
    and "rpc (poll_query e) = Body (Valid outcomes)"
    and "sorted_wrt (<) (page_seqs (Array outcomes))"
    and "\<forall>s\<in>set (page_seqs (Array outcomes)). C \<le> s"
    and "poll_chunks aptos (Array outcomes) e = Inr e1"
  shows "msgChan (final (iteration aptos rpc Timer e)) =
           msgChan e @ map snd (page_msgs aptos (Array outcomes)) \<and>
         sorted_wrt (<) (map fst (page_msgs aptos (Array outcomes))) \<and>
         (\<forall>p\<in>set (page_msgs aptos (Array outcomes)).
            C \<le> fst p \<and> TxHash (snd p) = pad32 (PutUint64 (fst p))) \<and>
         next_sequence (final (iteration aptos rpc Timer e)) =
           (if page_seqs (Array outcomes) = [] then C
            else Max (set (page_seqs (Array outcomes))) + 1)"
proof -
  let ?page = "Array outcomes"
  from assms have nz: "next_sequence e \<noteq> 0" by simp
  have fin: "final (iteration aptos rpc Timer e) = final (health_check rpc e1)"
    using assms(3,6) by (simp add: on_timer_def)
  from poll_chunks_warm [OF nz assms(4) assms(6)] have
    m: "msgChan e1 = msgChan e @ map snd (page_msgs aptos ?page)" and
    n: "next_sequence e1 = (if page_seqs ?page = [] then next_sequence e
                            else last (page_seqs ?page) + 1)"
    by simp_all
  have 1: "msgChan (final (iteration aptos rpc Timer e)) =
             msgChan e @ map snd (page_msgs aptos ?page)"
    unfolding fin by (simp add: health_check_keeps m)
  have 2: "sorted_wrt (<) (map fst (page_msgs aptos ?page))"
    using assms(4) by (rule page_msgs_sorted)
  have 3: "\<forall>p\<in>set (page_msgs aptos ?page).
             C \<le> fst p \<and> TxHash (snd p) = pad32 (PutUint64 (fst p))"
    using assms(5) page_msgs_subset [of aptos ?page] page_msgs_TxHash [of _ aptos ?page]
    by auto
  have 4: "next_sequence (final (iteration aptos rpc Timer e)) =
             (if page_seqs ?page = [] then C else Max (set (page_seqs ?page)) + 1)"
    unfolding fin using assms(1) sorted_last_Max [OF assms(4)]
    by (simp add: health_check_keeps n)
  from 1 2 3 4 show ?thesis by blast
qed

theorem warm_poll_witness:
  "next_sequence w5 = 5 \<and> (5 :: u64) \<noteq> 0 \<and>
   rpc_two_emitters (poll_query w5) = Body (Valid page_two_emitters) \<and>
   page_seqs (Array page_two_emitters) = [5, 6] \<and>
   page_msgs 22 (Array page_two_emitters) = [(5, msg_123), (6, msg_at 6 0 2)] \<and>
   msgChan (final (iteration 22 rpc_two_emitters Timer w5)) = [msg_123, msg_at 6 0 2] \<and>
   next_sequence (final (iteration 22 rpc_two_emitters Timer w5)) = 7"
proof -
  have c: "next_sequence w5 = 5" and nz: "(5 :: u64) \<noteq> 0"
    by (simp_all add: w5_def)
  have q: "rpc_two_emitters (poll_query w5) = Body (Valid page_two_emitters)"
    by (simp add: poll_query_def w5_def)
  have seqs: "page_seqs (Array page_two_emitters) = [5, 6]"
    by (simp add: page_two_emitters_def Get_chunk Uint_small del: Uint.simps)
  have msgs: "page_msgs 22 (Array page_two_emitters) = [(5, msg_123), (6, msg_at 6 0 2)]"
    by (simp add: page_two_emitters_def page_msgs_def chunk_msg_def Get_chunk Uint_small
        observe_123_at observe_seq2_at del: Uint.simps)
  have srt: "sorted_wrt (<) (page_seqs (Array page_two_emitters))"
    by (simp add: seqs)
  have ge: "\<forall>s\<in>set (page_seqs (Array page_two_emitters)). 5 \<le> s"
    by (simp add: seqs)
  have run: "poll_chunks 22 (Array page_two_emitters) w5 =
      Inr (w5\<lparr>next_sequence := 7, msgChan := [msg_123, msg_at 6 0 2]\<rparr>)"
    by (simp add: page_two_emitters_def Get_chunk Uint_small observe_123_at observe_seq2_at
        w5_def del: Uint.simps)
  from warm_poll [where rpc = rpc_two_emitters and e = w5 and C = 5
      and outcomes = page_two_emitters and aptos = 22, OF c nz q srt ge run]
  have "msgChan (final (iteration 22 rpc_two_emitters Timer w5)) =
          msgChan w5 @ map snd (page_msgs 22 (Array page_two_emitters))"
    and "next_sequence (final (iteration 22 rpc_two_emitters Timer w5)) =
          (if page_seqs (Array page_two_emitters) = [] then 5
           else Max (set (page_seqs (Array page_two_emitters))) + 1)"
    by simp_all
  then have "msgChan (final (iteration 22 rpc_two_emitters Timer w5)) = [msg_123, msg_at 6 0 2]"
    and "next_sequence (final (iteration 22 rpc_two_emitters Timer w5)) = 7"
    by (simp_all add: seqs msgs w5_def)
  with c nz q seqs msgs show ?thesis
    by blast
qed

text \<open>
  The claim as the specification states it fails. On the ascending page of two
  emitters the messages are sent with the \<^verbatim>\<open>Sequence\<close> values 9 and 2. On the page that
  lists the event 7 and then the event 3, the watcher at cursor 5 sends the message of the
  event 3 too, and its cursor becomes 4.
\<close>

theorem warm_poll_counterexample:
  "next_sequence w5 = 5 \<and>
   iteration 22 rpc_two_emitters Timer w5 =
     Continue \<lparr>next_sequence = 7, msgChan = [msg_123, msg_at 6 0 2], errorCount = 0,
               height = Some 100, ready = True\<rparr> \<and>
   Sequence msg_123 = 9 \<and> Sequence (msg_at 6 0 2) = 2 \<and>
   iteration 22 rpc_unordered Timer w5 =
     Continue \<lparr>next_sequence = 4, msgChan = [msg_at 7 123 9, msg_at 3 0 2], errorCount = 0,
               height = Some 100, ready = True\<rparr>"
  by (simp only: poll_two_emitters poll_unordered) (simp add: w5_def msg_123_def msg_at_def)


section \<open>Properties of the redeemers\<close>

subsection \<open>Evaluating the concrete inputs\<close>

lemma unwrap_eval:
  "redeemAndUnwrapOnSolana (sdk w m) ''bridge'' ''tokenBridge'' ''payer'' vaa_to_eth =
     (if 2 ^ 64 \<le> \<bar>150 * (w - m) * 10\<bar> then Inl (Error ''u64 too large'')
      else Inr (unwrap_tx (150 * (w - m) * 10)))"
  by (simp add: redeemAndUnwrapOnSolana_def sdk_def targetAmount_def unwrap_tx_def
      transfer_payload_to_eth_def)

lemma readUInt16BE_payload:
  "readUInt16BE payload_to_eth 65 = Some 1" "readUInt16BE payload_to_eth 99 = Some 2"
  by (simp_all add: readUInt16BE_def payload_to_eth_def nth_append)

lemma redeem_eval:
  "redeemOnSolana (sdk 9 8) ''bridge'' ''tokenBridge'' ''payer'' vaa_to_eth None =
     Inr redeem_tx"
  by (simp add: redeemOnSolana_def readUInt16BE_payload redeem_tx_def sdk_def)

lemma fee_five_nonzero: "replicate 31 0 @ [5] \<noteq> (replicate 32 0 :: bytes)"
proof
  assume "replicate 31 0 @ [5] = (replicate 32 0 :: bytes)"
  then have "last (replicate 31 0 @ [5 :: byte]) = last (replicate 32 0)"
    by simp
  then show False
    by simp
qed

lemma near_fixture_simps:
  "CHAIN_ID_NEAR near_fixture = 15"
  "parseVAAAlgorand near_fixture vaa_to_eth = Some parsed_to_eth"
  "parseVAAAlgorand near_fixture vaa_to_near = Some parsed_to_near"
  "uint8ArrayToHex near_fixture vaa_to_near = ''0100000001''"
  "hash_lookup near_fixture tokenBridge h = (True, ''alice.near'')"
  "getForeignAssetNear near_fixture tokenBridge c a = ''wsol.near''"
  "functionCall_result near_fixture log call = Some ''ok''"
  "storage_balance_of near_fixture log token account_id =
     (if storage_deposit token account_id \<in> set log then Some ''1250000000000000000000''
      else None)"
  by (simp_all add: near_fixture_def vaa_to_eth_def vaa_to_near_def)

lemma near_eval:
  "redeemOnNear near_fixture ''relayer.near'' ''bridge.near'' vaa_to_near [] =
     (Inr ''ok'', near_log)"
  by (simp add: redeemOnNear_def near_fixture_simps register_if_null_def functionCall_def
      fee_present_def zero_hex_def near_log_def Let_def parsed_to_near_def fee_five_nonzero)

subsection \<open>The target chain\<close>

text \<open>
  Claim C2, as the code has it. \<^verbatim>\<open>redeemOnNear\<close> throws for a message whose target
  chain is not NEAR, before it asks the chain anything: no call has been sent. The other
  redeemers of this source do not look at the target chain.
\<close>

theorem near_wrong_target:
  assumes "parseVAAAlgorand env vaa = Some p" and "ToChain p \<noteq> Some (CHAIN_ID_NEAR env)"
  shows "redeemOnNear env accountId tokenBridge vaa log =
           (Inl (Error ''Not destined for NEAR''), log)"
  using assms by (simp add: redeemOnNear_def)

theorem near_wrong_target_witness:
  "parseVAAAlgorand near_fixture vaa_to_eth = Some parsed_to_eth \<and>
   ToChain parsed_to_eth \<noteq> Some (CHAIN_ID_NEAR near_fixture) \<and>
   redeemOnNear near_fixture ''relayer.near'' ''bridge.near'' vaa_to_eth [] =
     (Inl (Error ''Not destined for NEAR''), [])"
proof -
  have p: "parseVAAAlgorand near_fixture vaa_to_eth = Some parsed_to_eth"
    by (simp add: near_fixture_simps)
  have t: "ToChain parsed_to_eth \<noteq> Some (CHAIN_ID_NEAR near_fixture)"
    by (simp add: near_fixture_simps parsed_to_eth_def)
  from near_wrong_target [OF p t] p t show ?thesis
    by blast
qed

text \<open>
  The claim as the specification states it, for every redeemer, fails: for a message
  whose target is chain 2, the two Solana redeemers (Solana is chain 1) return a
  transaction and the Terra redeemer returns its contract call.
\<close>

theorem redeem_other_chain_counterexample:
  "parse_vaa (sdk 9 8) vaa_to_eth = Some payload_to_eth \<and>
   parseTransferPayload (sdk 9 8) payload_to_eth = Some transfer_payload_to_eth \<and>
   targetChain transfer_payload_to_eth = 2 \<and>
   readUInt16BE payload_to_eth 99 = Some 2 \<and>
   CHAIN_ID_SOLANA (sdk 9 8) = 1 \<and>
   redeemOnSolana (sdk 9 8) ''bridge'' ''tokenBridge'' ''payer'' vaa_to_eth None =
     Inr redeem_tx \<and>
   redeemAndUnwrapOnSolana (sdk 9 8) ''bridge'' ''tokenBridge'' ''payer'' vaa_to_eth =
     Inr (unwrap_tx 1500) \<and>
   redeemOnTerra ''tokenBridge'' ''wallet'' vaa_to_eth =
     \<lparr>sender = ''wallet'', contract = ''tokenBridge'', submit_vaa_data = vaa_to_eth\<rparr>"
  by (simp add: redeem_eval unwrap_eval readUInt16BE_payload redeemOnTerra_def)
    (simp add: sdk_def transfer_payload_to_eth_def)

subsection \<open>Registration on NEAR\<close>

lemma register_if_null_log:
  "register_if_null env token account_id log = (ok, log') \<Longrightarrow>
     log' = log @ registration env token account_id log"
  by (auto simp add: register_if_null_def registration_def functionCall_def
      split: option.splits)

text \<open>
  Claim C6. For a redeem on NEAR of an asset whose contract is not the zero address
  that returns a result, the calls sent are, in this order: a \<^verbatim>\<open>storage_deposit\<close> for
  the receiver exactly when the token contract has no storage balance for it; a
  \<^verbatim>\<open>storage_deposit\<close> for the caller's account exactly when the message carries a fee
  that is not zero and the token contract, asked after the first step, has no storage
  balance for that account; then the completion call \<^verbatim>\<open>submit_vaa\<close>, which this
  redeemer sends twice.
\<close>

theorem near_registration:
  assumes "parseVAAAlgorand env vaa = Some p"
    and "Contract p \<noteq> zero_hex"
    and "redeemOnNear env accountId tokenBridge vaa log = (Inr r, log')"
    and "user = snd (hash_lookup env tokenBridge (uint8ArrayToHex env (ToAddress p)))"
    and "token = getForeignAssetNear env tokenBridge (FromChain p) (Contract p)"
    and "first = registration env token user log"
  shows "log' = log @ first @
           (if fee_present p then registration env token accountId (log @ first) else []) @
           [submit_vaa tokenBridge (uint8ArrayToHex env vaa),
            submit_vaa tokenBridge (uint8ArrayToHex env vaa)]"
  using assms
  by (auto simp add: redeemOnNear_def Let_def functionCall_def
      split: option.splits if_splits prod.splits bool.splits
      dest!: register_if_null_log)

theorem near_registration_witness:
  "parseVAAAlgorand near_fixture vaa_to_near = Some parsed_to_near \<and>
   Contract parsed_to_near \<noteq> zero_hex \<and> fee_present parsed_to_near \<and>
   redeemOnNear near_fixture ''relayer.near'' ''bridge.near'' vaa_to_near [] =
     (Inr ''ok'', near_log) \<and>
   registration near_fixture ''wsol.near'' ''alice.near'' [] =
     [storage_deposit ''wsol.near'' ''alice.near''] \<and>
   near_log =
     [storage_deposit ''wsol.near'' ''alice.near''] @
     registration near_fixture ''wsol.near'' ''relayer.near''
       [storage_deposit ''wsol.near'' ''alice.near''] @
     [submit_vaa ''bridge.near'' ''0100000001'', submit_vaa ''bridge.near'' ''0100000001'']"
proof -
  have p: "parseVAAAlgorand near_fixture vaa_to_near = Some parsed_to_near"
    by (simp add: near_fixture_simps)
  have c: "Contract parsed_to_near \<noteq> zero_hex"
    by (simp add: parsed_to_near_def zero_hex_def)
  have f: "fee_present parsed_to_near"
    by (simp add: parsed_to_near_def fee_present_def fee_five_nonzero)
  have u: "''alice.near'' =
      snd (hash_lookup near_fixture ''bridge.near''
             (uint8ArrayToHex near_fixture (ToAddress parsed_to_near)))"
    by (simp add: near_fixture_simps)
  have t: "''wsol.near'' =
      getForeignAssetNear near_fixture ''bridge.near'' (FromChain parsed_to_near)
        (Contract parsed_to_near)"
    by (simp add: near_fixture_simps)
  have r: "registration near_fixture ''wsol.near'' ''alice.near'' [] =
      [storage_deposit ''wsol.near'' ''alice.near'']"
    by (simp add: registration_def near_fixture_simps)
  from near_registration [OF p c near_eval u t r [symmetric]] f
  have "near_log =
     [storage_deposit ''wsol.near'' ''alice.near''] @
     registration near_fixture ''wsol.near'' ''relayer.near''
       [storage_deposit ''wsol.near'' ''alice.near''] @
     [submit_vaa ''bridge.near'' ''0100000001'', submit_vaa ''bridge.near'' ''0100000001'']"
    by (simp add: near_fixture_simps(4))
  with p c f near_eval r show ?thesis
    by blast
qed

subsection \<open>Redeem and unwrap on Solana\<close>

text \<open>
  Claim C7. A transaction returned by \<^verbatim>\<open>redeemAndUnwrapOnSolana\<close> holds exactly five
  instructions, in this order: the completion instruction of the token bridge, the
  creation of the temporary account, its initialisation for wrapped SOL, the transfer
  into it, and its closing; the only key that has signed is the generated key of the
  temporary account.
\<close>

theorem unwrap_transaction:
  assumes "redeemAndUnwrapOnSolana env bridgeAddress tokenBridgeAddress payerAddress signedVAA =
             Inr tx"
  shows "\<exists>completeTransferIx rentBalance target amt.
           complete_transfer_native_ix env tokenBridgeAddress bridgeAddress payerAddress
             signedVAA None = Some completeTransferIx \<and>
           instructions tx =
             [FromRust completeTransferIx,
              CreateAccount payerAddress (Keypair_generate env) rentBalance
                (AccountLayout_span env) (TOKEN_PROGRAM_ID env),
              InitAccount (TOKEN_PROGRAM_ID env) (WSOL_ADDRESS env) (Keypair_generate env)
                payerAddress,
              Transfer (TOKEN_PROGRAM_ID env) target (Keypair_generate env) payerAddress [] amt,
              CloseAccount (TOKEN_PROGRAM_ID env) (Keypair_generate env) payerAddress
                payerAddress []] \<and>
           signatures tx = [Keypair_generate env]"
  using assms
  by (auto simp add: redeemAndUnwrapOnSolana_def split: option.splits if_splits)

theorem unwrap_transaction_witness:
  "redeemAndUnwrapOnSolana (sdk 9 8) ''bridge'' ''tokenBridge'' ''payer'' vaa_to_eth =
     Inr (unwrap_tx 1500) \<and>
   length (instructions (unwrap_tx 1500)) = 5 \<and>
   hd (instructions (unwrap_tx 1500)) = FromRust [2] \<and>
   signatures (unwrap_tx 1500) = [Keypair_generate (sdk 9 8)]"
proof -
  have e: "redeemAndUnwrapOnSolana (sdk 9 8) ''bridge'' ''tokenBridge'' ''payer'' vaa_to_eth =
      Inr (unwrap_tx 1500)"
    by (simp add: unwrap_eval)
  have ix: "complete_transfer_native_ix (sdk 9 8) ''tokenBridge'' ''bridge'' ''payer''
      vaa_to_eth None = Some [2]"
    by (simp add: sdk_def)
  from unwrap_transaction [OF e] ix
  have "length (instructions (unwrap_tx 1500)) = 5"
    and "hd (instructions (unwrap_tx 1500)) = FromRust [2]"
    and "signatures (unwrap_tx 1500) = [Keypair_generate (sdk 9 8)]"
    by auto
  with e show ?thesis
    by blast
qed

text \<open>The rescaling rule of the specification is exact upwards and truncates
  downwards.\<close>

lemma rescale_spec_exact:
  "d_max \<le> d_dst \<Longrightarrow> rescale_spec amt d_max d_dst = int amt * 10 ^ nat (d_dst - d_max)"
  by (simp add: rescale_spec_def)

lemma rescale_spec_truncates:
  assumes "d_dst < d_max"
  shows "rescale_spec amt d_max d_dst * 10 ^ nat (d_max - d_dst) \<le> int amt \<and>
         int amt < (rescale_spec amt d_max d_dst + 1) * 10 ^ nat (d_max - d_dst)"
proof -
  let ?p = "(10 :: int) ^ nat (d_max - d_dst)"
  have pos: "0 < ?p" by simp
  have split: "int amt div ?p * ?p + int amt mod ?p = int amt"
    by (rule div_mult_mod_eq)
  have "0 \<le> int amt mod ?p" and "int amt mod ?p < ?p"
    using pos by simp_all
  with split have "int amt div ?p * ?p \<le> int amt"
    and "int amt < int amt div ?p * ?p + ?p"
    by linarith+
  then have "int amt div ?p * ?p \<le> int amt \<and> int amt < (int amt div ?p + 1) * ?p"
    by (simp add: distrib_right)
  then show ?thesis
    using assms by (simp add: rescale_spec_def)
qed



end
